theory Spec2Isabelle
  imports Complex_Main "HOL-Library.Signed_Division"
begin

section \<open>GDALWarpOperation: data model\<close>

text \<open>
  A shallow embedding of \<^verbatim>\<open>alg/gdalwarpoperation.cpp\<close>.

  Conventions of the model.
  \<^item> A C \<^verbatim>\<open>int\<close> is a HOL \<open>int\<close> and a C \<^verbatim>\<open>double\<close> is a HOL \<open>real\<close>: the model
    describes the executions of the program that are free of signed overflow, of
    out-of-range conversions from \<^verbatim>\<open>double\<close> to \<^verbatim>\<open>int\<close> and of rounding, all of
    which are outside what the C text defines or fixes.  Integer division \<^verbatim>\<open>/\<close>
    truncates towards zero and is written \<open>sdiv\<close>.
  \<^item> A pointer that may be \<^verbatim>\<open>NULL\<close> is an \<open>option\<close>; a C array reached through a
    pointer is a function from the index to the element.
  \<^item> Functions of GDAL and CPL that this file calls but does not define are fields
    of the records \<open>gdal_api\<close> (queries without effect) and \<open>gdal_sys\<close> (calls that act
    on the heap, the datasets and the warp kernel, all of which are the abstract
    world \<open>'w\<close>).
\<close>

datatype CPLErr = CE_None | CE_Debug | CE_Warning | CE_Failure | CE_Fatal

datatype CPLErrorNum = CPLE_AppDefined | CPLE_OutOfMemory | CPLE_IllegalArg

text \<open>The diagnostics channel: every \<^verbatim>\<open>CPLError\<close> and \<^verbatim>\<open>CPLDebug\<close> call, in order.\<close>

datatype diag = CPLError CPLErr CPLErrorNum string | CPLDebug string string

text \<open>
  \<^verbatim>\<open>GDALResampleAlg\<close>; \<open>GRA_Other\<close> stands for a value of the C enumeration type that is
  none of its three enumerators.
\<close>

datatype GDALResampleAlg = GRA_NearestNeighbour | GRA_Bilinear | GRA_Cubic | GRA_Other int

datatype GDALAccess = GA_ReadOnly | GA_Update

type_synonym GDALDatasetH = "nat option"
type_synonym GDALRasterBandH = "nat option"
type_synonym GDALDataType = int

text \<open>
  \<^verbatim>\<open>GDALTransformerFunc\<close>, with its opaque argument bound: the direction flag, the
  number of points and the three coordinate arrays go in; the overall result, the
  arrays as the call leaves them and the per-point success flags come out.
\<close>

type_synonym GDALTransformerFunc =
  "bool \<Rightarrow> int \<Rightarrow> (nat \<Rightarrow> real) \<Rightarrow> (nat \<Rightarrow> real) \<Rightarrow> (nat \<Rightarrow> real) \<Rightarrow>
   bool \<times> (nat \<Rightarrow> real) \<times> (nat \<Rightarrow> real) \<times> (nat \<Rightarrow> real) \<times> (nat \<Rightarrow> bool)"

text \<open>
  \<^verbatim>\<open>GDALWarpOptions\<close> (declared in \<^verbatim>\<open>gdalwarper.h\<close>): the fields this file reads.
  Callbacks and mask generators other than the transformer are opaque: only whether
  they are \<^verbatim>\<open>NULL\<close> matters here.
\<close>

record GDALWarpOptions =
  papszWarpOptions :: "string list"
  dfWarpMemoryLimit :: real
  eResampleAlg :: GDALResampleAlg
  eWorkingDataType :: GDALDataType
  hSrcDS :: GDALDatasetH
  hDstDS :: GDALDatasetH
  nBandCount :: int
  panSrcBands :: "(nat \<Rightarrow> int) option"
  panDstBands :: "(nat \<Rightarrow> int) option"
  padfSrcNoDataReal :: "(nat \<Rightarrow> real) option"
  padfSrcNoDataImag :: "(nat \<Rightarrow> real) option"
  padfDstNoDataReal :: "(nat \<Rightarrow> real) option"
  padfDstNoDataImag :: "(nat \<Rightarrow> real) option"
  pfnProgress :: "nat option"
  pfnTransformer :: "GDALTransformerFunc option"
  papfnSrcPerBandValidityMaskFunc :: "nat option"
  pfnSrcValidityMaskFunc :: "nat option"
  pfnSrcDensityMaskFunc :: "nat option"
  pfnDstDensityMaskFunc :: "nat option"
  pfnDstValidityMaskFunc :: "nat option"

text \<open>
  The queries of the GDAL core and the string functions of CPL that the file uses,
  the constants of \<^verbatim>\<open>gdal.h\<close> and the string comparison macro of \<^verbatim>\<open>cpl_port.h\<close>,
  none of which is defined in this file.
\<close>

record gdal_api =
  GDALGetRasterXSize :: "GDALDatasetH \<Rightarrow> int"
  GDALGetRasterYSize :: "GDALDatasetH \<Rightarrow> int"
  GDALGetRasterCount :: "GDALDatasetH \<Rightarrow> int"
  GDALGetRasterBand :: "GDALDatasetH \<Rightarrow> int \<Rightarrow> GDALRasterBandH"
  GDALGetRasterAccess :: "GDALRasterBandH \<Rightarrow> GDALAccess"
  GDALGetRasterDataType :: "GDALRasterBandH \<Rightarrow> GDALDataType"
  GDALGetDataTypeSize :: "GDALDataType \<Rightarrow> int"
  GDT_Unknown :: GDALDataType
  GDT_Byte :: GDALDataType
  GDT_TypeCount :: int
  EQUAL :: "string \<Rightarrow> string \<Rightarrow> bool"
  CSLFetchNameValue :: "string list \<Rightarrow> string \<Rightarrow> string option"
  CPLStringToComplex :: "string \<Rightarrow> real \<times> real"

section \<open>ComputeSourceWindow\<close>

text \<open>The local arrays \<^verbatim>\<open>adfX\<close>, \<^verbatim>\<open>adfY\<close>, \<^verbatim>\<open>adfZ\<close> and the counter \<^verbatim>\<open>nSamplePoints\<close>.\<close>

record sample_arrays =
  adfX :: "nat \<Rightarrow> real"
  adfY :: "nat \<Rightarrow> real"
  adfZ :: "nat \<Rightarrow> real"
  nSamplePoints :: nat

text \<open>
  The arrays are not initialised in the source; every entry that is read is written
  first, and the model starts them at 0.
\<close>

definition no_samples :: sample_arrays where
  "no_samples = \<lparr>adfX = (\<lambda>_. 0), adfY = (\<lambda>_. 0), adfZ = (\<lambda>_. 0), nSamplePoints = 0\<rparr>"

text \<open>One store \<^verbatim>\<open>adfX[n] = x; adfY[n] = y; adfZ[n++] = 0.0;\<close>.\<close>

definition put_sample :: "real \<Rightarrow> real \<Rightarrow> sample_arrays \<Rightarrow> sample_arrays" where
  "put_sample x y s =
     s\<lparr>adfX := (adfX s)(nSamplePoints s := x),
       adfY := (adfY s)(nSamplePoints s := y),
       adfZ := (adfZ s)(nSamplePoints s := 0),
       nSamplePoints := Suc (nSamplePoints s)\<rparr>"

text \<open>The body of the sampling loop for one value of \<^verbatim>\<open>dfRatio\<close>: top, bottom, left, right.\<close>

definition edge_samples ::
  "int \<Rightarrow> int \<Rightarrow> int \<Rightarrow> int \<Rightarrow> real \<Rightarrow> sample_arrays \<Rightarrow> sample_arrays" where
  "edge_samples nDstXOff nDstYOff nDstXSize nDstYSize dfRatio s =
     put_sample (real_of_int (nDstXSize + nDstXOff)) (dfRatio * real_of_int nDstYSize + real_of_int nDstYOff)
       (put_sample (real_of_int nDstXOff) (dfRatio * real_of_int nDstYSize + real_of_int nDstYOff)
         (put_sample (dfRatio * real_of_int nDstXSize + real_of_int nDstXOff) (real_of_int (nDstYOff + nDstYSize))
           (put_sample (dfRatio * real_of_int nDstXSize + real_of_int nDstXOff) (real_of_int nDstYOff) s)))"

text \<open>
  \<^verbatim>\<open>for( dfRatio = 0.0; dfRatio <= 1.01; dfRatio += 0.05 )\<close>, with the snap
  \<^verbatim>\<open>if( dfRatio > 0.99 ) dfRatio = 1.0;\<close> at the head of the body.
\<close>

function sample_loop ::
  "int \<Rightarrow> int \<Rightarrow> int \<Rightarrow> int \<Rightarrow> real \<Rightarrow> sample_arrays \<Rightarrow> sample_arrays" where
  "sample_loop nDstXOff nDstYOff nDstXSize nDstYSize dfRatio s =
     (if dfRatio \<le> 1.01 then
        (let r = (if dfRatio > 0.99 then 1.0 else dfRatio)
         in sample_loop nDstXOff nDstYOff nDstXSize nDstYSize (r + 0.05)
              (edge_samples nDstXOff nDstYOff nDstXSize nDstYSize r s))
      else s)"
  by pat_completeness auto
termination
proof (relation "measure (\<lambda>(a, b, c, d, r, s). if r \<le> 1.01 then nat \<lceil>(1.01 - r) * 20\<rceil> + 1 else 0)",
    goal_cases)
  case 1
  show ?case by simp
next
  case (2 nDstXOff nDstYOff nDstXSize nDstYSize dfRatio s x)
  show ?case
  proof (cases "dfRatio > 0.99")
    case True
    with 2 show ?thesis by simp
  next
    case False
    with 2 have r: "x = dfRatio" by simp
    have "(1.01 - (dfRatio + 0.05)) * 20 = (1.01 - dfRatio) * 20 - 1"
      by (simp add: field_simps)
    then have "\<lceil>(1.01 - (dfRatio + 0.05)) * 20\<rceil> = \<lceil>(1.01 - dfRatio) * 20\<rceil> - 1"
      by (simp only: ceiling_diff_one)
    moreover have "0 < \<lceil>(1.01 - dfRatio) * 20\<rceil>"
      using False by (simp add: ceiling_less_iff)
    ultimately show ?thesis using 2 r by auto
  qed
qed

text \<open>
  The loop that collects the bounds of the points that transformed, and counts the
  others.  The state is \<^verbatim>\<open>bGotInitialPoint\<close>, \<^verbatim>\<open>dfMinXOut\<close>, \<^verbatim>\<open>dfMinYOut\<close>,
  \<^verbatim>\<open>dfMaxXOut\<close>, \<^verbatim>\<open>dfMaxYOut\<close> and \<^verbatim>\<open>nFailedCount\<close>; the four bounds are not
  initialised in the source and are read only once \<^verbatim>\<open>bGotInitialPoint\<close> is set.
\<close>

record bounds_state =
  bGotInitialPoint :: bool
  dfMinXOut :: real
  dfMinYOut :: real
  dfMaxXOut :: real
  dfMaxYOut :: real
  nFailedCount :: int

definition no_bounds :: bounds_state where
  "no_bounds = \<lparr>bGotInitialPoint = False, dfMinXOut = 0, dfMinYOut = 0,
                 dfMaxXOut = 0, dfMaxYOut = 0, nFailedCount = 0\<rparr>"

definition bounds_step ::
  "(nat \<Rightarrow> bool) \<Rightarrow> (nat \<Rightarrow> real) \<Rightarrow> (nat \<Rightarrow> real) \<Rightarrow> nat \<Rightarrow> bounds_state \<Rightarrow> bounds_state" where
  "bounds_step abSuccess X Y i b =
     (if \<not> abSuccess i then b\<lparr>nFailedCount := nFailedCount b + 1\<rparr>
      else if \<not> bGotInitialPoint b then
        b\<lparr>bGotInitialPoint := True, dfMinXOut := X i, dfMinYOut := Y i,
          dfMaxXOut := X i, dfMaxYOut := Y i\<rparr>
      else
        b\<lparr>dfMinXOut := min (dfMinXOut b) (X i), dfMinYOut := min (dfMinYOut b) (Y i),
          dfMaxXOut := max (dfMaxXOut b) (X i), dfMaxYOut := max (dfMaxYOut b) (Y i)\<rparr>)"

fun collect_bounds ::
  "(nat \<Rightarrow> bool) \<Rightarrow> (nat \<Rightarrow> real) \<Rightarrow> (nat \<Rightarrow> real) \<Rightarrow> nat list \<Rightarrow> bounds_state \<Rightarrow> bounds_state" where
  "collect_bounds abSuccess X Y [] b = b"
| "collect_bounds abSuccess X Y (i # is) b =
     collect_bounds abSuccess X Y is (bounds_step abSuccess X Y i b)"

definition nResWinSize :: "GDALResampleAlg \<Rightarrow> int" where
  "nResWinSize alg =
     (let n0 = 0;
          n1 = (if alg = GRA_Bilinear then 1 else n0)
      in if alg = GRA_Cubic then 2 else n1)"

type_synonym window = "int \<times> int \<times> int \<times> int"

text \<open>
  The method returns \<^verbatim>\<open>CE_Failure\<close> without writing its four output parameters, or
  writes them and returns \<^verbatim>\<open>CE_None\<close>: the result is the list of diagnostics and
  either the error or the window \<open>(xoff, yoff, xsize, ysize)\<close>.  The transformer is
  called through \<^verbatim>\<open>psOptions->pfnTransformer\<close>, which validated options have set.
\<close>

definition err_transformer_failed :: diag where
  "err_transformer_failed =
     CPLError CE_Failure CPLE_AppDefined
       ''GDALWarperOperation::ComputeSourceWindow() failed because the pfnTransformer failed.''"

definition err_too_many_failed :: diag where
  "err_too_many_failed =
     CPLError CE_Failure CPLE_AppDefined
       ''Too many points (%d out of %d) failed to transform, unable to compute output bounds.''"

definition dbg_points_failed :: diag where
  "dbg_points_failed =
     CPLDebug ''GDAL''
       ''GDALWarpOperation::ComputeSourceWindow() %d out of %d points failed to transform.''"

definition ComputeSourceWindow ::
  "gdal_api \<Rightarrow> GDALWarpOptions \<Rightarrow> int \<Rightarrow> int \<Rightarrow> int \<Rightarrow> int \<Rightarrow> diag list \<times> (CPLErr + window)" where
  "ComputeSourceWindow api psOptions nDstXOff nDstYOff nDstXSize nDstYSize =
     (let s = sample_loop nDstXOff nDstYOff nDstXSize nDstYSize 0.0 no_samples
      in case the (pfnTransformer psOptions) True (int (nSamplePoints s)) (adfX s) (adfY s) (adfZ s) of
        (bOK, X, Y, Z, abSuccess) \<Rightarrow>
          if \<not> bOK then ([err_transformer_failed], Inl CE_Failure)
          else
            (let b = collect_bounds abSuccess X Y [0..<nSamplePoints s] no_bounds
             in if nFailedCount b > int (nSamplePoints s) - 10 then
                  ([err_too_many_failed], Inl CE_Failure)
                else
                  (let dbg = (if nFailedCount b > 0 then [dbg_points_failed] else []);
                       w = nResWinSize (eResampleAlg psOptions);
                       pnSrcXOff = max 0 (\<lfloor>dfMinXOut b\<rfloor> + w);
                       pnSrcYOff = max 0 (\<lfloor>dfMinYOut b\<rfloor> + w);
                       pnSrcXSize = min (GDALGetRasterXSize api (hSrcDS psOptions) - pnSrcXOff)
                                        (\<lceil>dfMaxXOut b\<rceil> - pnSrcXOff + w);
                       pnSrcYSize = min (GDALGetRasterYSize api (hSrcDS psOptions) - pnSrcYOff)
                                        (\<lceil>dfMaxYOut b\<rceil> - pnSrcYOff + w)
                   in (dbg, Inr (pnSrcXOff, pnSrcYOff, pnSrcXSize, pnSrcYSize)))))"

section \<open>ValidateOptions and Initialize\<close>

text \<open>
  Every rejection of \<^verbatim>\<open>ValidateOptions\<close> is one \<^verbatim>\<open>CPLError\<close> of class
  \<^verbatim>\<open>CE_Failure\<close> and number \<^verbatim>\<open>CPLE_IllegalArg\<close>; the text is the line of the
  message that names the reason.
\<close>

definition illegal_arg :: "string \<Rightarrow> diag" where
  "illegal_arg msg = CPLError CE_Failure CPLE_IllegalArg msg"

text \<open>
  The loop over the bands, \<^verbatim>\<open>for( iBand = 0; iBand < nBandCount; iBand++ )\<close>, run
  over the indices that remain; \<open>Some\<close> is the diagnostic of the first band rejected.
\<close>

fun validate_bands ::
  "gdal_api \<Rightarrow> GDALWarpOptions \<Rightarrow> (nat \<Rightarrow> int) \<Rightarrow> (nat \<Rightarrow> int) \<Rightarrow> nat list \<Rightarrow> diag option" where
  "validate_bands api psOptions src dst [] = None"
| "validate_bands api psOptions src dst (iBand # rest) =
     (if src iBand < 1 \<or> src iBand > GDALGetRasterCount api (hSrcDS psOptions) then
        Some (illegal_arg ''panSrcBands[%d] = %d ... out of range for dataset.'')
      else if dst iBand < 1 \<or> dst iBand > GDALGetRasterCount api (hDstDS psOptions) then
        Some (illegal_arg ''panDstBands[%d] = %d ... out of range for dataset.'')
      else if GDALGetRasterAccess api (GDALGetRasterBand api (hDstDS psOptions) (dst iBand)) = GA_ReadOnly then
        Some (illegal_arg ''Destination band %d appears to be read-only.'')
      else validate_bands api psOptions src dst rest)"

text \<open>
  \<^verbatim>\<open>ValidateOptions\<close> on the member \<^verbatim>\<open>psOptions\<close>, \<open>None\<close> when it is \<^verbatim>\<open>NULL\<close>.  The
  result is the diagnostics and \<^verbatim>\<open>TRUE\<close> or \<^verbatim>\<open>FALSE\<close>.  The test of the working data
  type is the conjunction that the source has.
\<close>

definition ValidateOptions :: "gdal_api \<Rightarrow> GDALWarpOptions option \<Rightarrow> diag list \<times> bool" where
  "ValidateOptions api ps =
     (case ps of
        None \<Rightarrow> ([illegal_arg ''no options currently initialized.''], False)
      | Some psOptions \<Rightarrow>
          if dfWarpMemoryLimit psOptions < 100000.0 then
            ([illegal_arg ''dfWarpMemoryLimit=%g is unreasonably small.''], False)
          else if eResampleAlg psOptions \<noteq> GRA_NearestNeighbour
                  \<and> eResampleAlg psOptions \<noteq> GRA_Bilinear
                  \<and> eResampleAlg psOptions \<noteq> GRA_Cubic then
            ([illegal_arg ''eResampleArg=%d is not a supported value.''], False)
          else if eWorkingDataType psOptions < 1
                  \<and> eWorkingDataType psOptions \<ge> GDT_TypeCount api then
            ([illegal_arg ''eWorkingDataType=%d is not a supported value.''], False)
          else if hSrcDS psOptions = None then
            ([illegal_arg ''hSrcDS is not set.''], False)
          else if hDstDS psOptions = None then
            ([illegal_arg ''hDstDS is not set.''], False)
          else if nBandCount psOptions = 0 then
            ([illegal_arg ''nBandCount=0, no bands configured!''], False)
          else if panSrcBands psOptions = None \<or> panDstBands psOptions = None then
            ([illegal_arg ''Either panSrcBands or panDstBands is NULL.''], False)
          else
            (case validate_bands api psOptions (the (panSrcBands psOptions)) (the (panDstBands psOptions))
                    [0..<nat (nBandCount psOptions)] of
               Some e \<Rightarrow> ([e], False)
             | None \<Rightarrow>
                 if nBandCount psOptions = 0 then
                   ([illegal_arg ''nBandCount=0, no bands configured!''], False)
                 else if padfSrcNoDataReal psOptions \<noteq> None \<and> padfSrcNoDataImag psOptions = None then
                   ([illegal_arg ''padfSrcNoDataReal set, but padfSrcNoDataImag not set.''], False)
                 else if pfnProgress psOptions = None then
                   ([illegal_arg ''pfnProgress is NULL.''], False)
                 else if pfnTransformer psOptions = None then
                   ([illegal_arg ''pfnTransformer is NULL.''], False)
                 else ([], True)))"

text \<open>
  \<^verbatim>\<open>Initialize\<close>: the clone of the options (a copy, here the value itself), the three
  defaults, and the validation; the result is the diagnostics, the error code and the
  new value of the member \<^verbatim>\<open>psOptions\<close>, which is \<^verbatim>\<open>NULL\<close> after a failure.  The band
  arrays that the default allocates hold \<open>i + 1\<close> at index \<open>i\<close>.
\<close>

definition default_band_mapping :: "gdal_api \<Rightarrow> GDALWarpOptions \<Rightarrow> GDALWarpOptions" where
  "default_band_mapping api psOptions =
     (if nBandCount psOptions = 0
         \<and> hSrcDS psOptions \<noteq> None
         \<and> hDstDS psOptions \<noteq> None
         \<and> GDALGetRasterCount api (hSrcDS psOptions) = GDALGetRasterCount api (hDstDS psOptions) then
        psOptions\<lparr>nBandCount := GDALGetRasterCount api (hSrcDS psOptions),
                  panSrcBands := Some (\<lambda>i. int i + 1),
                  panDstBands := Some (\<lambda>i. int i + 1)\<rparr>
      else psOptions)"

definition default_working_type :: "gdal_api \<Rightarrow> GDALWarpOptions \<Rightarrow> GDALWarpOptions" where
  "default_working_type api psOptions =
     (if eWorkingDataType psOptions = GDT_Unknown api
         \<and> hDstDS psOptions \<noteq> None
         \<and> nBandCount psOptions \<ge> 1 then
        (let hBand = GDALGetRasterBand api (hDstDS psOptions) (the (panDstBands psOptions) 0)
         in if hBand \<noteq> None then
              psOptions\<lparr>eWorkingDataType := GDALGetRasterDataType api hBand\<rparr>
            else psOptions)
      else psOptions)"

definition default_memory_limit :: "GDALWarpOptions \<Rightarrow> GDALWarpOptions" where
  "default_memory_limit psOptions =
     (if dfWarpMemoryLimit psOptions = 0.0 then
        psOptions\<lparr>dfWarpMemoryLimit := 64.0 * 1024 * 1024\<rparr>
      else psOptions)"

definition Initialize ::
  "gdal_api \<Rightarrow> GDALWarpOptions \<Rightarrow> diag list \<times> CPLErr \<times> GDALWarpOptions option" where
  "Initialize api psNewOptions =
     (let psOptions = default_memory_limit
                        (default_working_type api (default_band_mapping api psNewOptions))
      in case ValidateOptions api (Some psOptions) of
           (d, ok) \<Rightarrow> if \<not> ok then (d, CE_Failure, None) else (d, CE_None, Some psOptions))"

section \<open>The warp kernel, the collaborators and the state of the operation\<close>

text \<open>
  A buffer is known by its address only: the block that an allocation returned and a
  byte offset into it.  What the buffers hold is part of the world.
\<close>

datatype ptr = Ptr nat int

definition ptr_add :: "ptr \<Rightarrow> int \<Rightarrow> ptr" where
  "ptr_add p n = (case p of Ptr blk off \<Rightarrow> Ptr blk (off + n))"

datatype GDALRWFlag = GF_Read | GF_Write

text \<open>
  \<^verbatim>\<open>GDALWarpKernel\<close> (declared in \<^verbatim>\<open>gdalwarper.h\<close>): the members this file assigns,
  under the prefix \<open>wk_\<close>.  The arrays of pointers are held by value; the outer array
  of \<^verbatim>\<open>papanBandSrcValid\<close> is \<^verbatim>\<open>NULL\<close> until \<^verbatim>\<open>CreateKernelMask\<close> allocates it.
\<close>

record GDALWarpKernel =
  wk_papszWarpOptions :: "string list"
  wk_eResample :: GDALResampleAlg
  wk_eWorkingDataType :: GDALDataType
  wk_nBands :: int
  wk_nSrcXSize :: int
  wk_nSrcYSize :: int
  wk_papabySrcImage :: "nat \<Rightarrow> ptr option"
  wk_papanBandSrcValid :: "(nat \<Rightarrow> ptr option) option"
  wk_panUnifiedSrcValid :: "ptr option"
  wk_pafUnifiedSrcDensity :: "ptr option"
  wk_nDstXSize :: int
  wk_nDstYSize :: int
  wk_papabyDstImage :: "nat \<Rightarrow> ptr option"
  wk_panDstValid :: "ptr option"
  wk_pafDstDensity :: "ptr option"
  wk_nSrcXOff :: int
  wk_nSrcYOff :: int
  wk_nDstXOff :: int
  wk_nDstYOff :: int
  wk_pfnTransformer :: "GDALTransformerFunc option"
  wk_pfnProgress :: "nat option"
  wk_dfProgressBase :: real
  wk_dfProgressScale :: real

text \<open>
  The calls that act on the world: the allocator, \<^verbatim>\<open>memset\<close>, \<^verbatim>\<open>GDALCopyWords\<close>
  (its source is the pair of doubles, read as \<^verbatim>\<open>GDT_CFloat64\<close> when the flag is set
  and as \<^verbatim>\<open>GDT_Float64\<close> otherwise), raster input and output, the no-data masker
  and the kernel's \<^verbatim>\<open>PerformWarp\<close>.  \<^verbatim>\<open>CPLCalloc\<close> and \<^verbatim>\<open>CPLFree\<close> of the arrays of
  pointers, which do not fail, are not calls of the model.
\<close>

record 'w gdal_sys =
  VSIMalloc :: "int \<Rightarrow> 'w \<Rightarrow> ptr option \<times> 'w"
  VSIFree :: "ptr \<Rightarrow> 'w \<Rightarrow> 'w"
  CPLFree :: "ptr \<Rightarrow> 'w \<Rightarrow> 'w"
  memset :: "ptr \<Rightarrow> int \<Rightarrow> int \<Rightarrow> 'w \<Rightarrow> 'w"
  GDALCopyWords :: "real \<times> real \<Rightarrow> bool \<Rightarrow> ptr \<Rightarrow> GDALDataType \<Rightarrow> int \<Rightarrow> int \<Rightarrow> 'w \<Rightarrow> 'w"
  GDALRasterIO ::
    "GDALRasterBandH \<Rightarrow> GDALRWFlag \<Rightarrow> int \<Rightarrow> int \<Rightarrow> int \<Rightarrow> int \<Rightarrow> ptr option \<Rightarrow> int \<Rightarrow> int \<Rightarrow>
     GDALDataType \<Rightarrow> 'w \<Rightarrow> CPLErr \<times> 'w"
  GDALWarpNoDataMasker ::
    "real \<times> real \<Rightarrow> GDALDataType \<Rightarrow> int \<Rightarrow> int \<Rightarrow> int \<Rightarrow> int \<Rightarrow> ptr option \<Rightarrow> ptr option \<Rightarrow>
     'w \<Rightarrow> CPLErr \<times> 'w"
  PerformWarp :: "GDALWarpKernel \<Rightarrow> 'w \<Rightarrow> CPLErr \<times> 'w"

text \<open>
  The state that the methods thread: the two progress members of the operation, the
  world, the diagnostics emitted so far, and a record of every call of
  \<^verbatim>\<open>WarpRegion\<close> with its destination and source windows, kept for the statements
  about the chunks.
\<close>

record 'w warp_state =
  dfProgressBase :: real
  dfProgressScale :: real
  world :: 'w
  diags :: "diag list"
  regions :: "(window \<times> window) list"

section \<open>CreateKernelMask\<close>

definition err_mask_internal :: diag where
  "err_mask_internal = CPLError CE_Failure CPLE_AppDefined ''Internal error in CreateKernelMask(%s).''"

definition err_mask_oom :: diag where
  "err_mask_oom = CPLError CE_Failure CPLE_OutOfMemory ''Out of memory allocating %d bytes for %s mask.''"

text \<open>
  The second half of the method, \<^verbatim>\<open>if( *ppMask == NULL ) { \<dots> }\<close>: \<open>ppMask\<close> is the value
  of the selected slot and \<open>store\<close> assigns to it.
\<close>

definition allocate_if_needed ::
  "'w gdal_sys \<Rightarrow> ptr option \<Rightarrow> (ptr option \<Rightarrow> GDALWarpKernel \<Rightarrow> GDALWarpKernel) \<Rightarrow>
   int \<Rightarrow> int \<Rightarrow> int \<Rightarrow> int \<Rightarrow> GDALWarpKernel \<Rightarrow> 'w warp_state \<Rightarrow>
   CPLErr \<times> GDALWarpKernel \<times> 'w warp_state" where
  "allocate_if_needed sys ppMask store nXSize nYSize nBitsPerPixel nDefault poKernel st =
     (if ppMask = None then
        (let nBytes = (if nBitsPerPixel = 32 then nXSize * nYSize * 4
                       else (nXSize * nYSize + 7) sdiv 8)
         in case VSIMalloc sys nBytes (world st) of
              (None, w) \<Rightarrow>
                (CE_Failure, store None poKernel, st\<lparr>world := w, diags := diags st @ [err_mask_oom]\<rparr>)
            | (Some p, w) \<Rightarrow>
                (CE_None, store (Some p) poKernel, st\<lparr>world := memset sys p nDefault nBytes w\<rparr>))
      else (CE_None, poKernel, st))"

definition CreateKernelMask ::
  "gdal_api \<Rightarrow> 'w gdal_sys \<Rightarrow> GDALWarpKernel \<Rightarrow> int \<Rightarrow> string \<Rightarrow> 'w warp_state \<Rightarrow>
   CPLErr \<times> GDALWarpKernel \<times> 'w warp_state" where
  "CreateKernelMask api sys poKernel iBand pszType st =
     (if EQUAL api pszType ''BandSrcValid'' then
        (let k = (if wk_papanBandSrcValid poKernel = None then
                    poKernel\<lparr>wk_papanBandSrcValid := Some (\<lambda>i. None)\<rparr>
                  else poKernel)
         in allocate_if_needed sys (the (wk_papanBandSrcValid k) (nat iBand))
              (\<lambda>p k'. k'\<lparr>wk_papanBandSrcValid := Some ((the (wk_papanBandSrcValid k'))(nat iBand := p))\<rparr>)
              (wk_nSrcXSize k) (wk_nSrcYSize k) 1 0xff k st)
      else if EQUAL api pszType ''UnifiedSrcValid'' then
        allocate_if_needed sys (wk_panUnifiedSrcValid poKernel)
          (\<lambda>p k'. k'\<lparr>wk_panUnifiedSrcValid := p\<rparr>)
          (wk_nSrcXSize poKernel) (wk_nSrcYSize poKernel) 1 0xff poKernel st
      else if EQUAL api pszType ''UnifiedSrcDensity'' then
        allocate_if_needed sys (wk_pafUnifiedSrcDensity poKernel)
          (\<lambda>p k'. k'\<lparr>wk_pafUnifiedSrcDensity := p\<rparr>)
          (wk_nSrcXSize poKernel) (wk_nSrcYSize poKernel) 32 0 poKernel st
      else if EQUAL api pszType ''DstValid'' then
        allocate_if_needed sys (wk_panDstValid poKernel)
          (\<lambda>p k'. k'\<lparr>wk_panDstValid := p\<rparr>)
          (wk_nDstXSize poKernel) (wk_nDstYSize poKernel) 1 0xff poKernel st
      else if EQUAL api pszType ''DstDensity'' then
        allocate_if_needed sys (wk_pafDstDensity poKernel)
          (\<lambda>p k'. k'\<lparr>wk_pafDstDensity := p\<rparr>)
          (wk_nDstXSize poKernel) (wk_nDstYSize poKernel) 32 0 poKernel st
      else (CE_Failure, poKernel, st\<lparr>diags := diags st @ [err_mask_internal]\<rparr>))"

section \<open>WarpRegionToBuffer\<close>

definition err_src_oom :: diag where
  "err_src_oom = CPLError CE_Failure CPLE_OutOfMemory ''Failed to allocate %d byte source buffer.''"

text \<open>
  Modelled from the spec: the constructor of \<^verbatim>\<open>GDALWarpKernel\<close> is not in this file;
  section 4.5 of the specification has the mask planes created on demand, so they and
  the other members start as \<^verbatim>\<open>NULL\<close> and 0.
\<close>

definition new_kernel :: GDALWarpKernel where
  "new_kernel =
     \<lparr>wk_papszWarpOptions = [], wk_eResample = GRA_NearestNeighbour, wk_eWorkingDataType = 0,
      wk_nBands = 0, wk_nSrcXSize = 0, wk_nSrcYSize = 0, wk_papabySrcImage = (\<lambda>i. None),
      wk_papanBandSrcValid = None, wk_panUnifiedSrcValid = None, wk_pafUnifiedSrcDensity = None,
      wk_nDstXSize = 0, wk_nDstYSize = 0, wk_papabyDstImage = (\<lambda>i. None),
      wk_panDstValid = None, wk_pafDstDensity = None,
      wk_nSrcXOff = 0, wk_nSrcYOff = 0, wk_nDstXOff = 0, wk_nDstYOff = 0,
      wk_pfnTransformer = None, wk_pfnProgress = None,
      wk_dfProgressBase = 0, wk_dfProgressScale = 0\<rparr>"

text \<open>
  The loops of the method run over the band indices that remain; those whose
  condition is \<^verbatim>\<open>i < nBandCount && eErr == CE_None\<close> carry \<^verbatim>\<open>eErr\<close> and stop at the first
  error, so that the body of such a loop starts from \<^verbatim>\<open>CE_None\<close>.  First the loop that
  allocates a buffer for each source band and reads it: its body, then the loop.
\<close>

definition load_source_band ::
  "gdal_api \<Rightarrow> 'w gdal_sys \<Rightarrow> GDALWarpOptions \<Rightarrow> int \<Rightarrow> int \<Rightarrow> int \<Rightarrow> int \<Rightarrow> int \<Rightarrow> nat \<Rightarrow>
   GDALWarpKernel \<Rightarrow> 'w warp_state \<Rightarrow> CPLErr \<times> GDALWarpKernel \<times> 'w warp_state" where
  "load_source_band api sys psOptions nWordSize nSrcXOff nSrcYOff nSrcXSize nSrcYSize i oWK st =
     (let hBand = GDALGetRasterBand api (hSrcDS psOptions) (the (panSrcBands psOptions) i)
      in case VSIMalloc sys (nWordSize * nSrcXSize * nSrcYSize) (world st) of
           (p, w) \<Rightarrow>
             (let oWK1 = oWK\<lparr>wk_papabySrcImage := (wk_papabySrcImage oWK)(i := p)\<rparr>
              in if p = None then
                   (CE_Failure, oWK1, st\<lparr>world := w, diags := diags st @ [err_src_oom]\<rparr>)
                 else
                   (case GDALRasterIO sys hBand GF_Read nSrcXOff nSrcYOff nSrcXSize nSrcYSize
                           p nSrcXSize nSrcYSize (eWorkingDataType psOptions) w of
                      (eErr, w2) \<Rightarrow> (eErr, oWK1, st\<lparr>world := w2\<rparr>))))"

fun load_source_bands ::
  "gdal_api \<Rightarrow> 'w gdal_sys \<Rightarrow> GDALWarpOptions \<Rightarrow> int \<Rightarrow> int \<Rightarrow> int \<Rightarrow> int \<Rightarrow> int \<Rightarrow> nat list \<Rightarrow>
   CPLErr \<times> GDALWarpKernel \<times> 'w warp_state \<Rightarrow> CPLErr \<times> GDALWarpKernel \<times> 'w warp_state" where
  "load_source_bands api sys psOptions nWordSize nSrcXOff nSrcYOff nSrcXSize nSrcYSize [] acc = acc"
| "load_source_bands api sys psOptions nWordSize nSrcXOff nSrcYOff nSrcXSize nSrcYSize (i # rest) (eErr, oWK, st) =
     (if eErr \<noteq> CE_None then (eErr, oWK, st)
      else load_source_bands api sys psOptions nWordSize nSrcXOff nSrcYOff nSrcXSize nSrcYSize rest
             (load_source_band api sys psOptions nWordSize nSrcXOff nSrcYOff nSrcXSize nSrcYSize i oWK st))"

text \<open>The loop that points the destination bands into the caller's buffer.\<close>

fun wire_dest_bands ::
  "ptr \<Rightarrow> int \<Rightarrow> int \<Rightarrow> int \<Rightarrow> nat list \<Rightarrow> CPLErr \<Rightarrow> GDALWarpKernel \<Rightarrow> GDALWarpKernel" where
  "wire_dest_bands pDataBuf nDstXSize nDstYSize nWordSize [] eErr oWK = oWK"
| "wire_dest_bands pDataBuf nDstXSize nDstYSize nWordSize (i # rest) eErr oWK =
     (if eErr \<noteq> CE_None then oWK
      else wire_dest_bands pDataBuf nDstXSize nDstYSize nWordSize rest eErr
             (oWK\<lparr>wk_papabyDstImage := (wk_papabyDstImage oWK)
                      (i := Some (ptr_add pDataBuf (int i * nDstXSize * nDstYSize * nWordSize)))\<rparr>))"

text \<open>The loop that creates and fills the validity mask of each source band: body and loop.\<close>

definition mask_source_band ::
  "gdal_api \<Rightarrow> 'w gdal_sys \<Rightarrow> GDALWarpOptions \<Rightarrow> nat \<Rightarrow> GDALWarpKernel \<Rightarrow> 'w warp_state \<Rightarrow>
   CPLErr \<times> GDALWarpKernel \<times> 'w warp_state" where
  "mask_source_band api sys psOptions i oWK st =
     (case CreateKernelMask api sys oWK (int i) ''BandSrcValid'' st of
        (eErr, oWK1, st1) \<Rightarrow>
          if eErr = CE_None then
            (case GDALWarpNoDataMasker sys
                    (the (padfSrcNoDataReal psOptions) i, the (padfSrcNoDataImag psOptions) i)
                    (eWorkingDataType psOptions)
                    (wk_nSrcXOff oWK1) (wk_nSrcYOff oWK1) (wk_nSrcXSize oWK1) (wk_nSrcYSize oWK1)
                    (wk_papabySrcImage oWK1 i) (the (wk_papanBandSrcValid oWK1) i) (world st1) of
               (eErr2, w2) \<Rightarrow> (eErr2, oWK1, st1\<lparr>world := w2\<rparr>))
          else (eErr, oWK1, st1))"

fun mask_source_nodata ::
  "gdal_api \<Rightarrow> 'w gdal_sys \<Rightarrow> GDALWarpOptions \<Rightarrow> nat list \<Rightarrow>
   CPLErr \<times> GDALWarpKernel \<times> 'w warp_state \<Rightarrow> CPLErr \<times> GDALWarpKernel \<times> 'w warp_state" where
  "mask_source_nodata api sys psOptions [] acc = acc"
| "mask_source_nodata api sys psOptions (i # rest) (eErr, oWK, st) =
     (if eErr \<noteq> CE_None then (eErr, oWK, st)
      else mask_source_nodata api sys psOptions rest (mask_source_band api sys psOptions i oWK st))"

text \<open>The loop that frees the source buffers that were allocated.\<close>

fun free_source_bands :: "'w gdal_sys \<Rightarrow> GDALWarpKernel \<Rightarrow> nat list \<Rightarrow> 'w \<Rightarrow> 'w" where
  "free_source_bands sys oWK [] w = w"
| "free_source_bands sys oWK (i # rest) w =
     free_source_bands sys oWK rest
       (case wk_papabySrcImage oWK i of None \<Rightarrow> w | Some p \<Rightarrow> VSIFree sys p w)"

definition WarpRegionToBuffer ::
  "gdal_api \<Rightarrow> 'w gdal_sys \<Rightarrow> GDALWarpOptions \<Rightarrow> int \<Rightarrow> int \<Rightarrow> int \<Rightarrow> int \<Rightarrow> ptr \<Rightarrow> GDALDataType \<Rightarrow>
   int \<Rightarrow> int \<Rightarrow> int \<Rightarrow> int \<Rightarrow> 'w warp_state \<Rightarrow> CPLErr \<times> 'w warp_state" where
  "WarpRegionToBuffer api sys psOptions nDstXOff nDstYOff nDstXSize nDstYSize pDataBuf eBufDataType
       nSrcXOff nSrcYOff nSrcXSize nSrcYSize st =
     (let nWordSize = GDALGetDataTypeSize api (eWorkingDataType psOptions) sdiv 8;
          bands = [0..<nat (nBandCount psOptions)]
      in case (if nSrcXSize = 0 \<and> nSrcYSize = 0 then
                 (case ComputeSourceWindow api psOptions nDstXOff nDstYOff nDstXSize nDstYSize of
                    (d, r) \<Rightarrow> (st\<lparr>diags := diags st @ d\<rparr>, r))
               else (st, Inr (nSrcXOff, nSrcYOff, nSrcXSize, nSrcYSize))) of
           (st1, Inl eErr) \<Rightarrow> (eErr, st1)
         | (st1, Inr (sx, sy, sw, sh)) \<Rightarrow>
             (let oWK = new_kernel
                    \<lparr>wk_eResample := eResampleAlg psOptions,
                     wk_nBands := nBandCount psOptions,
                     wk_eWorkingDataType := eWorkingDataType psOptions,
                     wk_pfnTransformer := pfnTransformer psOptions,
                     wk_pfnProgress := pfnProgress psOptions,
                     wk_dfProgressBase := dfProgressBase st1,
                     wk_dfProgressScale := dfProgressScale st1,
                     wk_papszWarpOptions := papszWarpOptions psOptions,
                     wk_nSrcXOff := sx, wk_nSrcYOff := sy, wk_nSrcXSize := sw, wk_nSrcYSize := sh\<rparr>
              in case load_source_bands api sys psOptions nWordSize sx sy sw sh bands (CE_None, oWK, st1) of
                   (eErr2, oWK2, st2) \<Rightarrow>
                     (let oWK3 = wire_dest_bands pDataBuf nDstXSize nDstYSize nWordSize bands eErr2
                                   (oWK2\<lparr>wk_nDstXOff := nDstXOff, wk_nDstYOff := nDstYOff,
                                          wk_nDstXSize := nDstXSize, wk_nDstYSize := nDstYSize\<rparr>)
                      in case (if padfSrcNoDataReal psOptions \<noteq> None then
                                 mask_source_nodata api sys psOptions bands (eErr2, oWK3, st2)
                               else (eErr2, oWK3, st2)) of
                           (eErr4, oWK4, st4) \<Rightarrow>
                             (case (if eErr4 = CE_None then PerformWarp sys oWK4 (world st4)
                                    else (eErr4, world st4)) of
                                (eErr5, w5) \<Rightarrow>
                                  (eErr5, st4\<lparr>world := free_source_bands sys oWK4 bands w5\<rparr>)))))"

section \<open>WarpRegion\<close>

definition err_dst_oom :: diag where
  "err_dst_oom = CPLError CE_Failure CPLE_OutOfMemory ''Out of memory allocatint %d byte destination buffer.''"

text \<open>The conversion \<^verbatim>\<open>(int)\<close> of a double, which drops the fraction.\<close>

definition c_int_of_double :: "real \<Rightarrow> int" where
  "c_int_of_double x = (if x \<ge> 0 then \<lfloor>x\<rfloor> else \<lceil>x\<rceil>)"

text \<open>The loop that fills each band of the destination buffer when \<^verbatim>\<open>INIT_DEST\<close> is given.\<close>

fun init_dest_bands ::
  "gdal_api \<Rightarrow> 'w gdal_sys \<Rightarrow> GDALWarpOptions \<Rightarrow> string \<Rightarrow> ptr \<Rightarrow> int \<Rightarrow> int \<Rightarrow> int \<Rightarrow> int \<Rightarrow>
   nat list \<Rightarrow> 'w \<Rightarrow> 'w" where
  "init_dest_bands api sys psOptions pszInitDest pDstBuffer nWordSize nBandSize nDstXSize nDstYSize [] w = w"
| "init_dest_bands api sys psOptions pszInitDest pDstBuffer nWordSize nBandSize nDstXSize nDstYSize (iBand # rest) w =
     (let adfInitRealImag =
            (if EQUAL api pszInitDest ''NO_DATA'' \<and> padfDstNoDataReal psOptions \<noteq> None then
               (the (padfDstNoDataReal psOptions) iBand, the (padfDstNoDataImag psOptions) iBand)
             else CPLStringToComplex api pszInitDest);
          pBandData = ptr_add pDstBuffer (int iBand * nBandSize);
          w1 = (if eWorkingDataType psOptions = GDT_Byte api then
                  memset sys pBandData (max 0 (min 255 (c_int_of_double (fst adfInitRealImag)))) nBandSize w
                else if fst adfInitRealImag = 0.0 \<and> snd adfInitRealImag = 0 then
                  memset sys pBandData 0 nBandSize w
                else if snd adfInitRealImag = 0.0 then
                  GDALCopyWords sys adfInitRealImag False pBandData (eWorkingDataType psOptions)
                    nWordSize (nDstXSize * nDstYSize) w
                else
                  GDALCopyWords sys adfInitRealImag True pBandData (eWorkingDataType psOptions)
                    nWordSize (nDstXSize * nDstYSize) w)
      in init_dest_bands api sys psOptions pszInitDest pDstBuffer nWordSize nBandSize nDstXSize nDstYSize rest w1)"

text \<open>The loop that reads the destination bands; it returns at the first error.\<close>

fun read_dest_bands ::
  "gdal_api \<Rightarrow> 'w gdal_sys \<Rightarrow> GDALWarpOptions \<Rightarrow> ptr \<Rightarrow> int \<Rightarrow> int \<Rightarrow> int \<Rightarrow> int \<Rightarrow> int \<Rightarrow>
   nat list \<Rightarrow> 'w \<Rightarrow> CPLErr \<times> 'w" where
  "read_dest_bands api sys psOptions pDstBuffer nBandSize nDstXOff nDstYOff nDstXSize nDstYSize [] w = (CE_None, w)"
| "read_dest_bands api sys psOptions pDstBuffer nBandSize nDstXOff nDstYOff nDstXSize nDstYSize (iBand # rest) w =
     (case GDALRasterIO sys (GDALGetRasterBand api (hDstDS psOptions) (the (panDstBands psOptions) iBand))
             GF_Read nDstXOff nDstYOff nDstXSize nDstYSize
             (Some (ptr_add pDstBuffer (int iBand * nBandSize))) nDstXSize nDstYSize
             (eWorkingDataType psOptions) w of
        (eErr, w1) \<Rightarrow>
          if eErr \<noteq> CE_None then (eErr, w1)
          else read_dest_bands api sys psOptions pDstBuffer nBandSize nDstXOff nDstYOff nDstXSize nDstYSize rest w1)"

text \<open>The loop that writes the destination bands back while no error has occurred.\<close>

fun write_dest_bands ::
  "gdal_api \<Rightarrow> 'w gdal_sys \<Rightarrow> GDALWarpOptions \<Rightarrow> ptr \<Rightarrow> int \<Rightarrow> int \<Rightarrow> int \<Rightarrow> int \<Rightarrow> int \<Rightarrow>
   nat list \<Rightarrow> CPLErr \<times> 'w \<Rightarrow> CPLErr \<times> 'w" where
  "write_dest_bands api sys psOptions pDstBuffer nBandSize nDstXOff nDstYOff nDstXSize nDstYSize [] acc = acc"
| "write_dest_bands api sys psOptions pDstBuffer nBandSize nDstXOff nDstYOff nDstXSize nDstYSize (iBand # rest) (eErr, w) =
     (if eErr \<noteq> CE_None then (eErr, w)
      else write_dest_bands api sys psOptions pDstBuffer nBandSize nDstXOff nDstYOff nDstXSize nDstYSize rest
             (GDALRasterIO sys (GDALGetRasterBand api (hDstDS psOptions) (the (panDstBands psOptions) iBand))
                GF_Write nDstXOff nDstYOff nDstXSize nDstYSize
                (Some (ptr_add pDstBuffer (int iBand * nBandSize))) nDstXSize nDstYSize
                (eWorkingDataType psOptions) w))"

definition WarpRegion ::
  "gdal_api \<Rightarrow> 'w gdal_sys \<Rightarrow> GDALWarpOptions \<Rightarrow> int \<Rightarrow> int \<Rightarrow> int \<Rightarrow> int \<Rightarrow>
   int \<Rightarrow> int \<Rightarrow> int \<Rightarrow> int \<Rightarrow> 'w warp_state \<Rightarrow> CPLErr \<times> 'w warp_state" where
  "WarpRegion api sys psOptions nDstXOff nDstYOff nDstXSize nDstYSize
       nSrcXOff nSrcYOff nSrcXSize nSrcYSize st =
     (let st0 = st\<lparr>regions := regions st @
                     [((nDstXOff, nDstYOff, nDstXSize, nDstYSize),
                       (nSrcXOff, nSrcYOff, nSrcXSize, nSrcYSize))]\<rparr>;
          nWordSize = GDALGetDataTypeSize api (eWorkingDataType psOptions) sdiv 8;
          nBandSize = nWordSize * nDstXSize * nDstYSize;
          bands = [0..<nat (nBandCount psOptions)]
      in case VSIMalloc sys (nBandSize * nBandCount psOptions) (world st0) of
           (None, w) \<Rightarrow> (CE_Failure, st0\<lparr>world := w, diags := diags st0 @ [err_dst_oom]\<rparr>)
         | (Some pDstBuffer, w) \<Rightarrow>
             (case (case CSLFetchNameValue api (papszWarpOptions psOptions) ''INIT_DEST'' of
                      Some pszInitDest \<Rightarrow>
                        (CE_None, init_dest_bands api sys psOptions pszInitDest pDstBuffer nWordSize
                                    nBandSize nDstXSize nDstYSize bands w)
                    | None \<Rightarrow>
                        read_dest_bands api sys psOptions pDstBuffer nBandSize
                          nDstXOff nDstYOff nDstXSize nDstYSize bands w) of
                (eErr1, w1) \<Rightarrow>
                  if eErr1 \<noteq> CE_None then (eErr1, st0\<lparr>world := CPLFree sys pDstBuffer w1\<rparr>)
                  else
                    (case WarpRegionToBuffer api sys psOptions nDstXOff nDstYOff nDstXSize nDstYSize
                            pDstBuffer (eWorkingDataType psOptions)
                            nSrcXOff nSrcYOff nSrcXSize nSrcYSize (st0\<lparr>world := w1\<rparr>) of
                       (eErr2, st2) \<Rightarrow>
                         (case write_dest_bands api sys psOptions pDstBuffer nBandSize
                                 nDstXOff nDstYOff nDstXSize nDstYSize bands (eErr2, world st2) of
                            (eErr3, w3) \<Rightarrow> (eErr3, st2\<lparr>world := VSIFree sys pDstBuffer w3\<rparr>)))))"

section \<open>ChunkAndWarpImage\<close>

definition nSrcPixelCostInBits :: "gdal_api \<Rightarrow> GDALWarpOptions \<Rightarrow> int" where
  "nSrcPixelCostInBits api psOptions =
     (let c0 = GDALGetDataTypeSize api (eWorkingDataType psOptions) * nBandCount psOptions;
          c1 = (if pfnSrcDensityMaskFunc psOptions \<noteq> None then c0 + 32 else c0);
          c2 = (if papfnSrcPerBandValidityMaskFunc psOptions \<noteq> None
                   \<or> padfSrcNoDataReal psOptions \<noteq> None then c1 + nBandCount psOptions else c1)
      in if pfnSrcValidityMaskFunc psOptions \<noteq> None then c2 + 1 else c2)"

definition nDstPixelCostInBits :: "gdal_api \<Rightarrow> GDALWarpOptions \<Rightarrow> int" where
  "nDstPixelCostInBits api psOptions =
     (let c0 = GDALGetDataTypeSize api (eWorkingDataType psOptions) * nBandCount psOptions;
          c1 = (if pfnDstDensityMaskFunc psOptions \<noteq> None then c0 + 32 else c0)
      in if padfDstNoDataReal psOptions \<noteq> None
            \<or> pfnDstValidityMaskFunc psOptions \<noteq> None then c1 + nBandCount psOptions else c1)"

definition dfTotalMemoryUse ::
  "gdal_api \<Rightarrow> GDALWarpOptions \<Rightarrow> int \<Rightarrow> int \<Rightarrow> int \<Rightarrow> int \<Rightarrow> real" where
  "dfTotalMemoryUse api psOptions nSrcXSize nSrcYSize nDstXSize nDstYSize =
     (real_of_int (nSrcPixelCostInBits api psOptions) * real_of_int nSrcXSize * real_of_int nSrcYSize
      + real_of_int (nDstPixelCostInBits api psOptions) * real_of_int nDstXSize * real_of_int nDstYSize) / 8.0"

text \<open>
  The method proper.  The two recursive calls are in the order of the source, the
  second only after \<^verbatim>\<open>CE_None\<close> from the first and after \<^verbatim>\<open>dfProgressBase\<close> has been
  advanced; the saved progress values are restored after both.
\<close>

function ChunkAndWarpImage ::
  "gdal_api \<Rightarrow> 'w gdal_sys \<Rightarrow> GDALWarpOptions \<Rightarrow> int \<Rightarrow> int \<Rightarrow> int \<Rightarrow> int \<Rightarrow> 'w warp_state \<Rightarrow>
   CPLErr \<times> 'w warp_state" where
  "ChunkAndWarpImage api sys psOptions nDstXOff nDstYOff nDstXSize nDstYSize st =
     (case ComputeSourceWindow api psOptions nDstXOff nDstYOff nDstXSize nDstYSize of
        (d, Inl eErr) \<Rightarrow> (eErr, st\<lparr>diags := diags st @ d\<rparr>)
      | (d, Inr (nSrcXOff, nSrcYOff, nSrcXSize, nSrcYSize)) \<Rightarrow>
          if dfTotalMemoryUse api psOptions nSrcXSize nSrcYSize nDstXSize nDstYSize
               > dfWarpMemoryLimit psOptions
             \<and> (nDstXSize > 2 \<or> nDstYSize > 2) then
            (let dfSaveBase = dfProgressBase st;
                 dfSaveScale = dfProgressScale st;
                 st1 = st\<lparr>diags := diags st @ d, dfProgressScale := dfProgressScale st * 0.5\<rparr>
             in case (if nDstXSize > nDstYSize then
                        (let nChunk1 = nDstXSize sdiv 2;
                             nChunk2 = nDstXSize - nChunk1
                         in case ChunkAndWarpImage api sys psOptions nDstXOff nDstYOff nChunk1 nDstYSize st1 of
                              (eErr, st2) \<Rightarrow>
                                if eErr = CE_None then
                                  ChunkAndWarpImage api sys psOptions (nDstXOff + nChunk1) nDstYOff
                                    nChunk2 nDstYSize
                                    (st2\<lparr>dfProgressBase := dfProgressBase st2 + dfProgressScale st2\<rparr>)
                                else (eErr, st2))
                      else
                        (let nChunk1 = nDstYSize sdiv 2;
                             nChunk2 = nDstYSize - nChunk1
                         in case ChunkAndWarpImage api sys psOptions nDstXOff nDstYOff nDstXSize nChunk1 st1 of
                              (eErr, st2) \<Rightarrow>
                                if eErr = CE_None then
                                  ChunkAndWarpImage api sys psOptions nDstXOff (nDstYOff + nChunk1)
                                    nDstXSize nChunk2
                                    (st2\<lparr>dfProgressBase := dfProgressBase st2 + dfProgressScale st2\<rparr>)
                                else (eErr, st2))) of
                    (eErr, st3) \<Rightarrow>
                      (eErr, st3\<lparr>dfProgressBase := dfSaveBase, dfProgressScale := dfSaveScale\<rparr>))
          else
            WarpRegion api sys psOptions nDstXOff nDstYOff nDstXSize nDstYSize
              nSrcXOff nSrcYOff nSrcXSize nSrcYSize (st\<lparr>diags := diags st @ d\<rparr>))"
  by pat_completeness auto
termination
proof (relation "measure (\<lambda>(api, sys, psOptions, nDstXOff, nDstYOff, nDstXSize, nDstYSize, st).
                            nat nDstXSize + nat nDstYSize)", goal_cases)
  case 1
  show ?case by simp
next
  case 2
  then show ?case by (auto simp: signed_divide_int_def)
next
  case 3
  then show ?case by (auto simp: signed_divide_int_def)
next
  case 4
  then show ?case by (auto simp: signed_divide_int_def)
next
  case 5
  then show ?case by (auto simp: signed_divide_int_def)
qed

section \<open>The specification's side of the source-window estimator\<close>


text \<open>The indices of the sample points that the transformer reports as transformed.\<close>

definition survivors :: "(nat \<Rightarrow> bool) \<Rightarrow> nat list" where
  "survivors abSuccess = filter abSuccess [0..<84]"

text \<open>
  The sample arrays after the first \<open>m\<close> rounds of the sampling loop, one round per
  ratio \<open>i / 20\<close>; the loop of the source is shown to be \<open>sample_fold \<dots> 21\<close>.
\<close>

definition sample_fold :: "int \<Rightarrow> int \<Rightarrow> int \<Rightarrow> int \<Rightarrow> nat \<Rightarrow> sample_arrays" where
  "sample_fold dx dy dw dh m = fold (\<lambda>i. edge_samples dx dy dw dh (real i / 20)) [0..<m] no_samples"

text \<open>
  The window of the specification (section 4.2, step 7) for the half-width \<open>r\<close>, the
  source raster size and a bounding box.
\<close>

definition src_window_of_bounds ::
  "int \<Rightarrow> int \<Rightarrow> int \<Rightarrow> real \<Rightarrow> real \<Rightarrow> real \<Rightarrow> real \<Rightarrow> window" where
  "src_window_of_bounds r src_W src_H min_x max_x min_y max_y =
     (let sx = max 0 (\<lfloor>min_x\<rfloor> + r);
          sy = max 0 (\<lfloor>min_y\<rfloor> + r);
          sw = min (src_W - sx) (\<lceil>max_x\<rceil> - sx + r);
          sh = min (src_H - sy) (\<lceil>max_y\<rceil> - sy + r)
      in (sx, sy, sw, sh))"



section \<open>Concrete inputs\<close>

text \<open>A 300 by 300 single-band source and destination, and options that validate.\<close>

definition example_api :: gdal_api where
  "example_api =
     \<lparr>GDALGetRasterXSize = (\<lambda>ds. 300), GDALGetRasterYSize = (\<lambda>ds. 300),
      GDALGetRasterCount = (\<lambda>ds. 1), GDALGetRasterBand = (\<lambda>ds n. Some (nat n)),
      GDALGetRasterAccess = (\<lambda>b. GA_Update), GDALGetRasterDataType = (\<lambda>b. 1),
      GDALGetDataTypeSize = (\<lambda>t. 8), GDT_Unknown = 0, GDT_Byte = 1, GDT_TypeCount = 12,
      EQUAL = (=), CSLFetchNameValue = (\<lambda>l k. None), CPLStringToComplex = (\<lambda>s. (0, 0))\<rparr>"

definition example_options :: "GDALResampleAlg \<Rightarrow> GDALTransformerFunc \<Rightarrow> GDALWarpOptions" where
  "example_options alg tr =
     \<lparr>papszWarpOptions = [], dfWarpMemoryLimit = 100000, eResampleAlg = alg,
      eWorkingDataType = 1, hSrcDS = Some 1, hDstDS = Some 2, nBandCount = 1,
      panSrcBands = Some (\<lambda>i. 1), panDstBands = Some (\<lambda>i. 1),
      padfSrcNoDataReal = None, padfSrcNoDataImag = None,
      padfDstNoDataReal = None, padfDstNoDataImag = None,
      pfnProgress = Some 0, pfnTransformer = Some tr,
      papfnSrcPerBandValidityMaskFunc = None, pfnSrcValidityMaskFunc = None,
      pfnSrcDensityMaskFunc = None, pfnDstDensityMaskFunc = None,
      pfnDstValidityMaskFunc = None\<rparr>"

text \<open>A transformer that translates every point by \<open>(ox, oy)\<close>.\<close>

definition shift_transformer :: "real \<Rightarrow> real \<Rightarrow> GDALTransformerFunc" where
  "shift_transformer ox oy bDstToSrc n X Y Z =
     (True, (\<lambda>i. X i + ox), (\<lambda>i. Y i + oy), Z, (\<lambda>i. True))"

text \<open>
  A transformer whose points alternate between the two corners of the box
  \<open>[100.3, 200.7] \<times> [50.2, 60.9]\<close>, with the success flags \<open>ok\<close>.
\<close>

definition box_X :: "nat \<Rightarrow> real" where
  "box_X i = (if even i then 100.3 else 200.7)"

definition box_Y :: "nat \<Rightarrow> real" where
  "box_Y i = (if even i then 50.2 else 60.9)"

definition box_transformer :: "(nat \<Rightarrow> bool) \<Rightarrow> GDALTransformerFunc" where
  "box_transformer ok bDstToSrc n X Y Z = (True, box_X, box_Y, Z, ok)"


section \<open>The specification's side of the validation\<close>

text \<open>
  The invariants of section 3 of the specification, with the conditions of its data
  model (memory budget, resampling algorithm, datasets, callbacks) that section 7 lists
  as invalid configurations.  \<open>known_raster_type\<close> is the test that the working type is
  an enumerator of \<^verbatim>\<open>GDALDataType\<close> other than \<^verbatim>\<open>GDT_Unknown\<close>.
\<close>

definition known_raster_type :: "gdal_api \<Rightarrow> GDALDataType \<Rightarrow> bool" where
  "known_raster_type api t \<longleftrightarrow> 1 \<le> t \<and> t < GDT_TypeCount api"

definition nodata_paired :: "(nat \<Rightarrow> real) option \<Rightarrow> (nat \<Rightarrow> real) option \<Rightarrow> bool" where
  "nodata_paired re im \<longleftrightarrow> (re = None) = (im = None)"

definition bands_valid :: "gdal_api \<Rightarrow> GDALWarpOptions \<Rightarrow> bool" where
  "bands_valid api psOptions \<longleftrightarrow>
     nBandCount psOptions \<ge> 1 \<and> panSrcBands psOptions \<noteq> None \<and> panDstBands psOptions \<noteq> None \<and>
     (\<forall>i \<in> set [0..<nat (nBandCount psOptions)].
        1 \<le> the (panSrcBands psOptions) i \<and>
        the (panSrcBands psOptions) i \<le> GDALGetRasterCount api (hSrcDS psOptions) \<and>
        1 \<le> the (panDstBands psOptions) i \<and>
        the (panDstBands psOptions) i \<le> GDALGetRasterCount api (hDstDS psOptions) \<and>
        GDALGetRasterAccess api (GDALGetRasterBand api (hDstDS psOptions) (the (panDstBands psOptions) i))
          \<noteq> GA_ReadOnly)"

definition spec_invariants :: "gdal_api \<Rightarrow> GDALWarpOptions \<Rightarrow> bool" where
  "spec_invariants api psOptions \<longleftrightarrow>
     bands_valid api psOptions \<and>
     nodata_paired (padfSrcNoDataReal psOptions) (padfSrcNoDataImag psOptions) \<and>
     nodata_paired (padfDstNoDataReal psOptions) (padfDstNoDataImag psOptions) \<and>
     known_raster_type api (eWorkingDataType psOptions) \<and>
     dfWarpMemoryLimit psOptions \<ge> 100000 \<and>
     eResampleAlg psOptions \<in> {GRA_NearestNeighbour, GRA_Bilinear, GRA_Cubic} \<and>
     hSrcDS psOptions \<noteq> None \<and> hDstDS psOptions \<noteq> None \<and>
     pfnProgress psOptions \<noteq> None \<and> pfnTransformer psOptions \<noteq> None"

text \<open>What the validation of the source tests, as one predicate.\<close>

definition code_accepts :: "gdal_api \<Rightarrow> GDALWarpOptions \<Rightarrow> bool" where
  "code_accepts api psOptions \<longleftrightarrow>
     dfWarpMemoryLimit psOptions \<ge> 100000 \<and>
     eResampleAlg psOptions \<in> {GRA_NearestNeighbour, GRA_Bilinear, GRA_Cubic} \<and>
     \<not> (eWorkingDataType psOptions < 1 \<and> eWorkingDataType psOptions \<ge> GDT_TypeCount api) \<and>
     hSrcDS psOptions \<noteq> None \<and> hDstDS psOptions \<noteq> None \<and>
     nBandCount psOptions \<noteq> 0 \<and> panSrcBands psOptions \<noteq> None \<and> panDstBands psOptions \<noteq> None \<and>
     (\<forall>i \<in> set [0..<nat (nBandCount psOptions)].
        1 \<le> the (panSrcBands psOptions) i \<and>
        the (panSrcBands psOptions) i \<le> GDALGetRasterCount api (hSrcDS psOptions) \<and>
        1 \<le> the (panDstBands psOptions) i \<and>
        the (panDstBands psOptions) i \<le> GDALGetRasterCount api (hDstDS psOptions) \<and>
        GDALGetRasterAccess api (GDALGetRasterBand api (hDstDS psOptions) (the (panDstBands psOptions) i))
          \<noteq> GA_ReadOnly) \<and>
     \<not> (padfSrcNoDataReal psOptions \<noteq> None \<and> padfSrcNoDataImag psOptions = None) \<and>
     pfnProgress psOptions \<noteq> None \<and> pfnTransformer psOptions \<noteq> None"

section \<open>The specification's side of the mask planes\<close>



text \<open>The slot of a plane in the kernel; the per-band plane is the entry of its band.\<close>

definition mask_slot :: "GDALWarpKernel \<Rightarrow> string \<Rightarrow> int \<Rightarrow> ptr option" where
  "mask_slot k plane iBand =
     (if plane = ''BandSrcValid'' then
        (case wk_papanBandSrcValid k of None \<Rightarrow> None | Some a \<Rightarrow> a (nat iBand))
      else if plane = ''UnifiedSrcValid'' then wk_panUnifiedSrcValid k
      else if plane = ''UnifiedSrcDensity'' then wk_pafUnifiedSrcDensity k
      else if plane = ''DstValid'' then wk_panDstValid k
      else wk_pafDstDensity k)"

definition set_mask_slot :: "GDALWarpKernel \<Rightarrow> string \<Rightarrow> int \<Rightarrow> ptr option \<Rightarrow> GDALWarpKernel" where
  "set_mask_slot k plane iBand p =
     (if plane = ''BandSrcValid'' then
        k\<lparr>wk_papanBandSrcValid :=
             Some ((case wk_papanBandSrcValid k of None \<Rightarrow> (\<lambda>i. None) | Some a \<Rightarrow> a)(nat iBand := p))\<rparr>
      else if plane = ''UnifiedSrcValid'' then k\<lparr>wk_panUnifiedSrcValid := p\<rparr>
      else if plane = ''UnifiedSrcDensity'' then k\<lparr>wk_pafUnifiedSrcDensity := p\<rparr>
      else if plane = ''DstValid'' then k\<lparr>wk_panDstValid := p\<rparr>
      else k\<lparr>wk_pafDstDensity := p\<rparr>)"






text \<open>
  Collaborators whose world is the number of calls made so far: every allocation
  succeeds and returns block number \<open>w\<close>, raster input and output succeed, and the
  kernel returns the given code.
\<close>

definition example_sys :: "CPLErr \<Rightarrow> nat gdal_sys" where
  "example_sys kernel_result =
     \<lparr>VSIMalloc = (\<lambda>n w. (Some (Ptr w 0), Suc w)),
      VSIFree = (\<lambda>p w. Suc w),
      CPLFree = (\<lambda>p w. Suc w),
      memset = (\<lambda>p v n w. Suc w),
      GDALCopyWords = (\<lambda>v c p t s n w. Suc w),
      GDALRasterIO = (\<lambda>b f x y xs ys p bx by t w. (CE_None, Suc w)),
      GDALWarpNoDataMasker = (\<lambda>v t x y xs ys img m w. (CE_None, Suc w)),
      PerformWarp = (\<lambda>k w. (kernel_result, Suc w))\<rparr>"

definition example_state :: "nat warp_state" where
  "example_state =
     \<lparr>dfProgressBase = 0, dfProgressScale = 1, world = 0, diags = [], regions = []\<rparr>"


text \<open>Options with the identity transformer and nearest-neighbour resampling.\<close>

definition ident_options :: GDALWarpOptions where
  "ident_options = example_options GRA_NearestNeighbour (shift_transformer 0 0)"

section \<open>The specification's side of the chunker\<close>

text \<open>The memory cost model of section 4.3 of the specification, in bits per pixel.\<close>

definition spec_src_bits :: "gdal_api \<Rightarrow> GDALWarpOptions \<Rightarrow> int" where
  "spec_src_bits api psOptions =
     GDALGetDataTypeSize api (eWorkingDataType psOptions) * nBandCount psOptions
     + (if pfnSrcDensityMaskFunc psOptions \<noteq> None then 32 else 0)
     + (if papfnSrcPerBandValidityMaskFunc psOptions \<noteq> None \<or> padfSrcNoDataReal psOptions \<noteq> None
        then nBandCount psOptions else 0)
     + (if pfnSrcValidityMaskFunc psOptions \<noteq> None then 1 else 0)"

definition spec_dst_bits :: "gdal_api \<Rightarrow> GDALWarpOptions \<Rightarrow> int" where
  "spec_dst_bits api psOptions =
     GDALGetDataTypeSize api (eWorkingDataType psOptions) * nBandCount psOptions
     + (if pfnDstDensityMaskFunc psOptions \<noteq> None then 32 else 0)
     + (if padfDstNoDataReal psOptions \<noteq> None \<or> pfnDstValidityMaskFunc psOptions \<noteq> None
        then nBandCount psOptions else 0)"

definition spec_total_bytes ::
  "gdal_api \<Rightarrow> GDALWarpOptions \<Rightarrow> int \<Rightarrow> int \<Rightarrow> int \<Rightarrow> int \<Rightarrow> real" where
  "spec_total_bytes api psOptions sw sh dw dh =
     real_of_int (spec_src_bits api psOptions * sw * sh + spec_dst_bits api psOptions * dw * dh) / 8"

text \<open>The two halves of a split along the longer dimension, \<open>c1 = dim / 2\<close> and \<open>c2 = dim - c1\<close>.\<close>

definition lower_half :: "window \<Rightarrow> window" where
  "lower_half r = (case r of (x, y, w, h) \<Rightarrow> if w > h then (x, y, w div 2, h) else (x, y, w, h div 2))"

definition upper_half :: "window \<Rightarrow> window" where
  "upper_half r =
     (case r of (x, y, w, h) \<Rightarrow>
        if w > h then (x + w div 2, y, w - w div 2, h) else (x, y + h div 2, w, h - h div 2))"

text \<open>The chunker and the region executor on a window.\<close>

definition chunk_window ::
  "gdal_api \<Rightarrow> 'w gdal_sys \<Rightarrow> GDALWarpOptions \<Rightarrow> window \<Rightarrow> 'w warp_state \<Rightarrow> CPLErr \<times> 'w warp_state" where
  "chunk_window api sys psOptions r st =
     (case r of (x, y, w, h) \<Rightarrow> ChunkAndWarpImage api sys psOptions x y w h st)"

text \<open>
  The pixels of a window, and the leaf chunks of a call: the destination windows of the
  calls of the region executor that the call added to the record.
\<close>

definition pixels :: "window \<Rightarrow> (int \<times> int) set" where
  "pixels r = (case r of (x, y, w, h) \<Rightarrow> {x..<x + w} \<times> {y..<y + h})"

fun disjoint_windows :: "window list \<Rightarrow> bool" where
  "disjoint_windows [] = True"
| "disjoint_windows (r # rs) = ((\<forall>s \<in> set rs. pixels r \<inter> pixels s = {}) \<and> disjoint_windows rs)"

definition tiles :: "window list \<Rightarrow> window \<Rightarrow> bool" where
  "tiles leaves r \<longleftrightarrow> (\<Union>l \<in> set leaves. pixels l) = pixels r \<and> disjoint_windows leaves"

definition leaf_chunks :: "'w warp_state \<Rightarrow> 'w warp_state \<Rightarrow> window list" where
  "leaf_chunks st st' = map fst (drop (length (regions st)) (regions st'))"

text \<open>The progress members of a state are those of another; and so is the record of calls.\<close>

definition progress_kept :: "'w warp_state \<Rightarrow> 'w warp_state \<Rightarrow> bool" where
  "progress_kept st st' \<longleftrightarrow>
     dfProgressBase st' = dfProgressBase st \<and> dfProgressScale st' = dfProgressScale st"

definition frame_kept :: "'w warp_state \<Rightarrow> 'w warp_state \<Rightarrow> bool" where
  "frame_kept st st' \<longleftrightarrow> progress_kept st st' \<and> regions st' = regions st"

text \<open>
  Leaves that are pairwise disjoint and lie in a window, and that cover it when the
  flag is set.
\<close>

definition leaves_in :: "window list \<Rightarrow> window \<Rightarrow> bool \<Rightarrow> bool" where
  "leaves_in leaves r all_done \<longleftrightarrow>
     disjoint_windows leaves \<and> (\<Union>l \<in> set leaves. pixels l) \<subseteq> pixels r \<and>
     (all_done \<longrightarrow> (\<Union>l \<in> set leaves. pixels l) = pixels r)"

section \<open>Properties of ComputeSourceWindow\<close>

declare sample_loop.simps [simp del]

lemma sample_loop_unroll:
  "k \<le> 21 \<Longrightarrow> sample_loop dx dy dw dh (real k / 20) s =
     fold (\<lambda>i. edge_samples dx dy dw dh (real i / 20)) [k..<21] s"
proof (induction "21 - k" arbitrary: k s)
  case 0
  then have k: "k = 21" by simp
  show ?case unfolding k by (subst sample_loop.simps) simp
next
  case (Suc n)
  then have k: "k < 21" "n = 21 - Suc k" "Suc k \<le> 21" by simp_all
  have le: "real k / 20 \<le> 1.01" using k(1) by simp
  have snap: "(if real k / 20 > 0.99 then 1.0 else real k / 20) = real k / 20"
  proof (cases "k = 20")
    case True then show ?thesis by simp
  next
    case False
    with k(1) have "k \<le> 19" by simp
    then have "real k \<le> 19" by simp
    then show ?thesis by simp
  qed
  have nxt: "real k / 20 + 0.05 = real (Suc k) / 20" by (simp add: field_simps)
  have "sample_loop dx dy dw dh (real k / 20) s =
        sample_loop dx dy dw dh (real (Suc k) / 20) (edge_samples dx dy dw dh (real k / 20) s)"
    by (subst sample_loop.simps) (simp only: le snap nxt Let_def if_True)
  also have "\<dots> = fold (\<lambda>i. edge_samples dx dy dw dh (real i / 20)) [Suc k..<21]
                     (edge_samples dx dy dw dh (real k / 20) s)"
    by (rule Suc.hyps(1)[OF k(2) k(3)])
  also have "\<dots> = fold (\<lambda>i. edge_samples dx dy dw dh (real i / 20)) [k..<21] s"
    using k(1) by (simp add: upt_conv_Cons)
  finally show ?case .
qed

lemma sample_fold_Suc:
  "sample_fold dx dy dw dh (Suc m) = edge_samples dx dy dw dh (real m / 20) (sample_fold dx dy dw dh m)"
  by (simp add: sample_fold_def)

lemma sample_fold_count: "nSamplePoints (sample_fold dx dy dw dh m) = 4 * m"
  by (induction m) (simp_all add: sample_fold_Suc, simp_all add: sample_fold_def no_samples_def edge_samples_def put_sample_def)



lemma edge_samples_Z:
  "adfZ (edge_samples dx dy dw dh r s) =
     (adfZ s)(nSamplePoints s := 0, nSamplePoints s + 1 := 0,
              nSamplePoints s + 2 := 0, nSamplePoints s + 3 := 0)"
  by (simp add: edge_samples_def put_sample_def eval_nat_numeral)



lemma sample_fold_Z: "adfZ (sample_fold dx dy dw dh m) i = 0"
proof (induction m)
  case 0
  show ?case by (simp add: sample_fold_def no_samples_def)
next
  case (Suc m)
  then show ?case by (simp add: sample_fold_Suc edge_samples_Z)
qed

lemma sample_loop_fold:
  "sample_loop dx dy dw dh 0 no_samples = sample_fold dx dy dw dh 21"
  using sample_loop_unroll[of 0 dx dy dw dh no_samples] by (simp add: sample_fold_def)

lemma collect_bounds_failed:
  "nFailedCount (collect_bounds ok X Y is b) = nFailedCount b + int (length (filter (\<lambda>i. \<not> ok i) is))"
  by (induction "is" arbitrary: b) (simp_all add: bounds_step_def)

lemma Min_insert_min:
  fixes a :: real
  assumes "finite A"
  shows "Min (insert (min a b) A) = Min (insert a (insert b A))"
proof (cases "A = {}")
  case True
  then show ?thesis by simp
next
  case False
  with assms show ?thesis by (simp add: min.assoc)
qed

lemma Max_insert_max:
  fixes a :: real
  assumes "finite A"
  shows "Max (insert (max a b) A) = Max (insert a (insert b A))"
proof (cases "A = {}")
  case True
  then show ?thesis by simp
next
  case False
  with assms show ?thesis by (simp add: max.assoc)
qed

lemma bounds_step_fail:
  "\<not> ok i \<Longrightarrow> bGotInitialPoint (bounds_step ok X Y i b) = bGotInitialPoint b \<and>
     dfMinXOut (bounds_step ok X Y i b) = dfMinXOut b \<and>
     dfMinYOut (bounds_step ok X Y i b) = dfMinYOut b \<and>
     dfMaxXOut (bounds_step ok X Y i b) = dfMaxXOut b \<and>
     dfMaxYOut (bounds_step ok X Y i b) = dfMaxYOut b"
  by (simp add: bounds_step_def)

lemma bounds_step_first:
  "ok i \<Longrightarrow> \<not> bGotInitialPoint b \<Longrightarrow> bGotInitialPoint (bounds_step ok X Y i b) \<and>
     dfMinXOut (bounds_step ok X Y i b) = X i \<and>
     dfMinYOut (bounds_step ok X Y i b) = Y i \<and>
     dfMaxXOut (bounds_step ok X Y i b) = X i \<and>
     dfMaxYOut (bounds_step ok X Y i b) = Y i"
  by (simp add: bounds_step_def)

lemma bounds_step_next:
  "ok i \<Longrightarrow> bGotInitialPoint b \<Longrightarrow> bGotInitialPoint (bounds_step ok X Y i b) \<and>
     dfMinXOut (bounds_step ok X Y i b) = min (dfMinXOut b) (X i) \<and>
     dfMinYOut (bounds_step ok X Y i b) = min (dfMinYOut b) (Y i) \<and>
     dfMaxXOut (bounds_step ok X Y i b) = max (dfMaxXOut b) (X i) \<and>
     dfMaxYOut (bounds_step ok X Y i b) = max (dfMaxYOut b) (Y i)"
  by (simp add: bounds_step_def)

lemma collect_bounds_got:
  "bGotInitialPoint b \<Longrightarrow>
     dfMinXOut (collect_bounds ok X Y is b) = Min (insert (dfMinXOut b) (X ` set (filter ok is))) \<and>
     dfMinYOut (collect_bounds ok X Y is b) = Min (insert (dfMinYOut b) (Y ` set (filter ok is))) \<and>
     dfMaxXOut (collect_bounds ok X Y is b) = Max (insert (dfMaxXOut b) (X ` set (filter ok is))) \<and>
     dfMaxYOut (collect_bounds ok X Y is b) = Max (insert (dfMaxYOut b) (Y ` set (filter ok is)))"
proof (induction "is" arbitrary: b)
  case Nil
  then show ?case by simp
next
  case (Cons i "is")
  show ?case
  proof (cases "ok i")
    case False
    note st = bounds_step_fail[where ok=ok and i=i and X=X and Y=Y and b=b, OF False]
    have g: "bGotInitialPoint (bounds_step ok X Y i b)"
      using Cons.prems st by simp
    have f: "filter ok (i # is) = filter ok is" using False by simp
    show ?thesis
      using Cons.IH[OF g] unfolding f collect_bounds.simps by (simp only: st)
  next
    case True
    note st = bounds_step_next[where ok=ok and i=i and X=X and Y=Y and b=b, OF True Cons.prems]
    have g: "bGotInitialPoint (bounds_step ok X Y i b)"
      using st by simp
    have fX: "X ` set (filter ok (i # is)) = insert (X i) (X ` set (filter ok is))"
      and fY: "Y ` set (filter ok (i # is)) = insert (Y i) (Y ` set (filter ok is))"
      using True by simp_all
    have fin: "finite (X ` set (filter ok is))" "finite (Y ` set (filter ok is))" by simp_all
    show ?thesis
      using Cons.IH[OF g] unfolding fX fY collect_bounds.simps
      by (simp only: st Min_insert_min[OF fin(1)] Min_insert_min[OF fin(2)]
            Max_insert_max[OF fin(1)] Max_insert_max[OF fin(2)])
  qed
qed

lemma collect_bounds_first:
  "\<not> bGotInitialPoint b \<Longrightarrow> filter ok is \<noteq> [] \<Longrightarrow>
     dfMinXOut (collect_bounds ok X Y is b) = Min (X ` set (filter ok is)) \<and>
     dfMinYOut (collect_bounds ok X Y is b) = Min (Y ` set (filter ok is)) \<and>
     dfMaxXOut (collect_bounds ok X Y is b) = Max (X ` set (filter ok is)) \<and>
     dfMaxYOut (collect_bounds ok X Y is b) = Max (Y ` set (filter ok is))"
proof (induction "is" arbitrary: b)
  case Nil
  then show ?case by simp
next
  case (Cons i "is")
  show ?case
  proof (cases "ok i")
    case False
    note st = bounds_step_fail[where ok=ok and i=i and X=X and Y=Y and b=b, OF False]
    have g: "\<not> bGotInitialPoint (bounds_step ok X Y i b)"
      using Cons.prems st by simp
    have f: "filter ok (i # is) = filter ok is" using False by simp
    have ne: "filter ok is \<noteq> []" using Cons.prems unfolding f by simp
    show ?thesis using Cons.IH[OF g ne] unfolding f collect_bounds.simps .
  next
    case True
    note st = bounds_step_first[where ok=ok and i=i and X=X and Y=Y and b=b, OF True Cons.prems(1)]
    have g: "bGotInitialPoint (bounds_step ok X Y i b)" using st by simp
    have fX: "X ` set (filter ok (i # is)) = insert (X i) (X ` set (filter ok is))"
      and fY: "Y ` set (filter ok (i # is)) = insert (Y i) (Y ` set (filter ok is))"
      using True by simp_all
    show ?thesis
      using collect_bounds_got[OF g, of ok X Y "is"] unfolding fX fY collect_bounds.simps
      by (simp only: st)
  qed
qed

lemma failed_count_survivors:
  "int (length (filter (\<lambda>i. \<not> ok i) [0..<84])) = 84 - int (length (survivors ok))"
proof -
  have "length (filter ok [0..<84]) + length (filter (\<lambda>i. \<not> ok i) [0..<84]) = length [0..<84]"
    by (rule sum_length_filter_compl)
  then show ?thesis by (simp add: survivors_def)
qed

lemma ComputeSourceWindow_eval:
  assumes out: "the (pfnTransformer opts) True 84 (adfX (sample_fold dx dy dw dh 21)) (adfY (sample_fold dx dy dw dh 21))
                (adfZ (sample_fold dx dy dw dh 21)) = (bOK, X, Y, Z, ok)"
  shows "ComputeSourceWindow api opts dx dy dw dh =
     (if \<not> bOK then ([err_transformer_failed], Inl CE_Failure)
      else if length (survivors ok) < 10 then ([err_too_many_failed], Inl CE_Failure)
      else ((if length (survivors ok) < 84 then [dbg_points_failed] else []),
            Inr (src_window_of_bounds (nResWinSize (eResampleAlg opts))
                   (GDALGetRasterXSize api (hSrcDS opts)) (GDALGetRasterYSize api (hSrcDS opts))
                   (Min (X ` set (survivors ok))) (Max (X ` set (survivors ok)))
                   (Min (Y ` set (survivors ok))) (Max (Y ` set (survivors ok))))))"
proof (cases bOK)
  case False
  then show ?thesis
    by (simp add: ComputeSourceWindow_def Let_def sample_loop_fold sample_fold_count out)
next
  case True
  let ?b = "collect_bounds ok X Y [0..<84] no_bounds"
  have nf: "nFailedCount ?b = 84 - int (length (survivors ok))"
    by (simp only: collect_bounds_failed failed_count_survivors) (simp add: no_bounds_def)
  show ?thesis
  proof (cases "length (survivors ok) < 10")
    case few: True
    then show ?thesis
      using True nf by (simp add: ComputeSourceWindow_def Let_def sample_loop_fold sample_fold_count out)
  next
    case False
    then have ne: "filter ok [0..<84] \<noteq> []" by (auto simp: survivors_def)
    have ng: "\<not> bGotInitialPoint no_bounds" by (simp add: no_bounds_def)
    note bb = collect_bounds_first[OF ng ne, of X Y, folded survivors_def]
    have le: "length (survivors ok) \<le> 84"
      unfolding survivors_def using length_filter_le[of ok "[0..<84]"] by simp
    show ?thesis
      using True False nf le
      by (simp add: ComputeSourceWindow_def sample_loop_fold sample_fold_count out bb
            src_window_of_bounds_def Let_def)
  qed
qed

lemma example_options_sel:
  "pfnTransformer (example_options alg tr) = Some tr"
  "eResampleAlg (example_options alg tr) = alg"
  "hSrcDS (example_options alg tr) = Some 1"
  by (simp_all add: example_options_def)

lemma example_api_sel:
  "GDALGetRasterXSize example_api ds = 300"
  "GDALGetRasterYSize example_api ds = 300"
  by (simp_all add: example_api_def)






lemma survivors_all: "length (survivors (\<lambda>i. True)) = 84"
  by (simp add: survivors_def)







text \<open>
  What the two clamps of the source do give: the origin is not negative and the far
  edges do not pass the raster size.
\<close>

lemma src_window_of_bounds_clamped:
  assumes "src_window_of_bounds r W H a b c d = (sx, sy, sw, sh)"
  shows "0 \<le> sx \<and> 0 \<le> sy \<and> sx + sw \<le> W \<and> sy + sh \<le> H"
proof -
  from assms have "sx = max 0 (\<lfloor>a\<rfloor> + r)" "sy = max 0 (\<lfloor>c\<rfloor> + r)"
    "sw = min (W - sx) (\<lceil>b\<rceil> - sx + r)" "sh = min (H - sy) (\<lceil>d\<rceil> - sy + r)"
    by (auto simp add: src_window_of_bounds_def Let_def)
  then show ?thesis by linarith
qed

lemma ComputeSourceWindow_clamped:
  assumes "snd (ComputeSourceWindow api opts dx dy dw dh) = Inr (sx, sy, sw, sh)"
  shows "0 \<le> sx \<and> 0 \<le> sy \<and>
         sx + sw \<le> GDALGetRasterXSize api (hSrcDS opts) \<and>
         sy + sh \<le> GDALGetRasterYSize api (hSrcDS opts)"
proof -
  obtain bOK X Y Z ok where out: "the (pfnTransformer opts) True 84 (adfX (sample_fold dx dy dw dh 21))
      (adfY (sample_fold dx dy dw dh 21)) (adfZ (sample_fold dx dy dw dh 21)) = (bOK, X, Y, Z, ok)"
    by (rule prod_cases5)
  from assms have "src_window_of_bounds (nResWinSize (eResampleAlg opts))
                   (GDALGetRasterXSize api (hSrcDS opts)) (GDALGetRasterYSize api (hSrcDS opts))
                   (Min (X ` set (survivors ok))) (Max (X ` set (survivors ok)))
                   (Min (Y ` set (survivors ok))) (Max (Y ` set (survivors ok))) = (sx, sy, sw, sh)"
    unfolding ComputeSourceWindow_eval[OF out] by (simp split: if_splits)
  then show ?thesis by (rule src_window_of_bounds_clamped)
qed

lemma shift_bounds:
  "Min ((\<lambda>i. adfX (sample_fold 0 0 100 10 21) i + 400) ` set (survivors (\<lambda>i. True))) = 400"
  "Max ((\<lambda>i. adfX (sample_fold 0 0 100 10 21) i + 400) ` set (survivors (\<lambda>i. True))) = 500"
  "Min ((\<lambda>i. adfY (sample_fold 0 0 100 10 21) i + 50) ` set (survivors (\<lambda>i. True))) = 50"
  "Max ((\<lambda>i. adfY (sample_fold 0 0 100 10 21) i + 50) ` set (survivors (\<lambda>i. True))) = 60"
  by code_simp+

text \<open>
  C4: the returned window is claimed to lie inside the source raster with a size that
  is not negative.  For a destination rectangle that the transformer places to the
  right of a 300 by 300 source (columns 400 to 500) the method returns the origin 400
  and the width -100.
\<close>

theorem C4_window_outside_source:
  "ComputeSourceWindow example_api (example_options GRA_NearestNeighbour (shift_transformer 400 50)) 0 0 100 10
     = ([], Inr (400, 50, - 100, 10))"
proof -
  let ?o = "example_options GRA_NearestNeighbour (shift_transformer 400 50)"
  let ?s = "sample_fold 0 0 100 10 21"
  have h: "the (pfnTransformer ?o) True 84 (adfX ?s) (adfY ?s) (adfZ ?s)
     = (True, (\<lambda>i. adfX ?s i + 400), (\<lambda>i. adfY ?s i + 50), adfZ ?s, (\<lambda>i. True))"
    by (simp add: shift_transformer_def example_options_sel)
  show ?thesis
    unfolding ComputeSourceWindow_eval[OF h]
    by (simp add: survivors_all shift_bounds src_window_of_bounds_def nResWinSize_def
          example_options_sel example_api_sel)
qed

section \<open>Properties of ValidateOptions and Initialize\<close>

lemma validate_bands_None:
  "validate_bands api opts src dst is = None \<longleftrightarrow>
     (\<forall>i \<in> set is. 1 \<le> src i \<and> src i \<le> GDALGetRasterCount api (hSrcDS opts) \<and>
        1 \<le> dst i \<and> dst i \<le> GDALGetRasterCount api (hDstDS opts) \<and>
        GDALGetRasterAccess api (GDALGetRasterBand api (hDstDS opts) (dst i)) \<noteq> GA_ReadOnly)"
  by (induction "is") auto

text \<open>The validation returns \<^verbatim>\<open>TRUE\<close> exactly on \<open>code_accepts\<close>, and then without a diagnostic.\<close>

lemma ValidateOptions_accepts:
  "snd (ValidateOptions api (Some opts)) \<longleftrightarrow> code_accepts api opts"
proof (cases "validate_bands api opts (the (panSrcBands opts)) (the (panDstBands opts)) [0..<nat (nBandCount opts)]")
  case None
  then show ?thesis
    using validate_bands_None[of api opts "the (panSrcBands opts)" "the (panDstBands opts)" "[0..<nat (nBandCount opts)]"]
    by (cases "eResampleAlg opts") (simp_all add: ValidateOptions_def code_accepts_def)
next
  case (Some e)
  then show ?thesis
    using validate_bands_None[of api opts "the (panSrcBands opts)" "the (panDstBands opts)" "[0..<nat (nBandCount opts)]"]
    by (cases "eResampleAlg opts") (simp_all add: ValidateOptions_def code_accepts_def)
qed

lemma ValidateOptions_silent:
  assumes "snd (ValidateOptions api (Some opts))"
  shows "ValidateOptions api (Some opts) = ([], True)"
  using assms
  by (auto simp add: ValidateOptions_def split: if_splits option.splits)

lemma Initialize_accepts:
  "Initialize api opts =
     (let o' = default_memory_limit (default_working_type api (default_band_mapping api opts))
      in if code_accepts api o' then ([], CE_None, Some o')
         else (fst (ValidateOptions api (Some o')), CE_Failure, None))"
proof -
  let ?o = "default_memory_limit (default_working_type api (default_band_mapping api opts))"
  show ?thesis
  proof (cases "code_accepts api ?o")
    case True
    then have "ValidateOptions api (Some ?o) = ([], True)"
      using ValidateOptions_silent ValidateOptions_accepts by blast
    with True show ?thesis by (simp add: Initialize_def Let_def)
  next
    case False
    then have "\<not> snd (ValidateOptions api (Some ?o))"
      using ValidateOptions_accepts by blast
    then obtain d where "ValidateOptions api (Some ?o) = (d, False)"
      by (cases "ValidateOptions api (Some ?o)") simp
    with False show ?thesis by (simp add: Initialize_def Let_def)
  qed
qed

text \<open>Whatever the specification accepts, the validation accepts.\<close>

lemma spec_invariants_accepted:
  assumes "spec_invariants api opts"
  shows "code_accepts api opts"
  using assms
  by (auto simp: spec_invariants_def code_accepts_def bands_valid_def known_raster_type_def
        nodata_paired_def)

text \<open>
  The test of the working type cannot fire once \<^verbatim>\<open>GDT_TypeCount\<close> is positive, so the
  working type has no part in the outcome.
\<close>

lemma working_type_not_tested:
  assumes "1 \<le> GDT_TypeCount api"
  shows "code_accepts api (opts\<lparr>eWorkingDataType := t\<rparr>) = code_accepts api opts"
  using assms by (auto simp: code_accepts_def)

lemma dst_nodata_not_tested:
  "code_accepts api (opts\<lparr>padfDstNoDataReal := re, padfDstNoDataImag := im\<rparr>) = code_accepts api opts"
  by (simp add: code_accepts_def)

lemma example_options_accepted:
  "code_accepts example_api (example_options alg tr) \<longleftrightarrow>
     alg \<in> {GRA_NearestNeighbour, GRA_Bilinear, GRA_Cubic}"
  by (simp add: code_accepts_def example_options_def example_api_def)

lemma example_defaults:
  "default_memory_limit (default_working_type example_api (default_band_mapping example_api
     ((example_options alg tr)\<lparr>eWorkingDataType := 99\<rparr>))) = (example_options alg tr)\<lparr>eWorkingDataType := 99\<rparr>"
  "default_memory_limit (default_working_type example_api (default_band_mapping example_api
     ((example_options alg tr)\<lparr>padfDstNoDataReal := Some (\<lambda>i. 0)\<rparr>)))
     = (example_options alg tr)\<lparr>padfDstNoDataReal := Some (\<lambda>i. 0)\<rparr>"
  by (simp_all add: default_memory_limit_def default_working_type_def default_band_mapping_def
        example_options_def example_api_def)

text \<open>
  C3: validation is claimed to accept a record exactly when it satisfies the
  invariants of section 3, and so to reject an unknown working type and a no-data real
  part without its imaginary part on either side.  \<^verbatim>\<open>Initialize\<close> accepts the working
  type 99 where \<^verbatim>\<open>GDT_TypeCount\<close> is 12, and accepts a destination no-data real part
  whose imaginary part is \<^verbatim>\<open>NULL\<close>; neither record satisfies the invariants.
\<close>

theorem C3_validation_accepts_invalid:
  "\<not> known_raster_type example_api 99 \<and>
   \<not> spec_invariants example_api ((example_options GRA_Cubic (shift_transformer 0 0))\<lparr>eWorkingDataType := 99\<rparr>) \<and>
   Initialize example_api ((example_options GRA_Cubic (shift_transformer 0 0))\<lparr>eWorkingDataType := 99\<rparr>)
     = ([], CE_None, Some ((example_options GRA_Cubic (shift_transformer 0 0))\<lparr>eWorkingDataType := 99\<rparr>)) \<and>
   \<not> nodata_paired (Some (\<lambda>i. 0)) None \<and>
   \<not> spec_invariants example_api
        ((example_options GRA_Cubic (shift_transformer 0 0))\<lparr>padfDstNoDataReal := Some (\<lambda>i. 0)\<rparr>) \<and>
   Initialize example_api ((example_options GRA_Cubic (shift_transformer 0 0))\<lparr>padfDstNoDataReal := Some (\<lambda>i. 0)\<rparr>)
     = ([], CE_None, Some ((example_options GRA_Cubic (shift_transformer 0 0))\<lparr>padfDstNoDataReal := Some (\<lambda>i. 0)\<rparr>))"
proof -
  let ?o = "example_options GRA_Cubic (shift_transformer 0 0)"
  have tc: "1 \<le> GDT_TypeCount example_api" by (simp add: example_api_def)
  have a: "\<not> known_raster_type example_api 99"
    by (simp add: known_raster_type_def example_api_def)
  have b: "\<not> spec_invariants example_api (?o\<lparr>eWorkingDataType := 99\<rparr>)"
    using a by (simp add: spec_invariants_def)
  have c: "code_accepts example_api (?o\<lparr>eWorkingDataType := 99\<rparr>)"
    by (simp add: working_type_not_tested[OF tc] example_options_accepted)
  have d: "\<not> nodata_paired (Some (\<lambda>i. 0)) None"
    by (simp add: nodata_paired_def)
  have e: "\<not> spec_invariants example_api (?o\<lparr>padfDstNoDataReal := Some (\<lambda>i. 0)\<rparr>)"
    using d by (simp add: spec_invariants_def example_options_def)
  have "code_accepts example_api (?o\<lparr>padfDstNoDataReal := Some (\<lambda>i. 0), padfDstNoDataImag := None\<rparr>)"
    by (simp only: dst_nodata_not_tested example_options_accepted) simp
  then have f: "code_accepts example_api (?o\<lparr>padfDstNoDataReal := Some (\<lambda>i. 0)\<rparr>)"
    by (simp add: example_options_def)
  show ?thesis
    using a b c d e f by (simp add: Initialize_accepts example_defaults)
qed

section \<open>Properties of CreateKernelMask\<close>







lemma mask_slot_set:
  "mask_slot (set_mask_slot k a iBand p) a iBand = p"
  by (simp add: mask_slot_def set_mask_slot_def)

section \<open>Properties of WarpRegion and ChunkAndWarpImage\<close>

declare ChunkAndWarpImage.simps [simp del]

lemma cost_model:
  "nSrcPixelCostInBits api opts = spec_src_bits api opts"
  "nDstPixelCostInBits api opts = spec_dst_bits api opts"
  "dfTotalMemoryUse api opts sw sh dw dh = spec_total_bytes api opts sw sh dw dh"
  by (simp_all add: nSrcPixelCostInBits_def nDstPixelCostInBits_def dfTotalMemoryUse_def
        spec_src_bits_def spec_dst_bits_def spec_total_bytes_def Let_def)

lemma Chunk_fail:
  assumes "ComputeSourceWindow api opts dx dy dw dh = (d, Inl e)"
  shows "ChunkAndWarpImage api sys opts dx dy dw dh st = (e, st\<lparr>diags := diags st @ d\<rparr>)"
  by (subst ChunkAndWarpImage.simps) (simp add: assms)

lemma Chunk_leaf:
  assumes "ComputeSourceWindow api opts dx dy dw dh = (d, Inr (sx, sy, sw, sh))"
    and "\<not> (spec_total_bytes api opts sw sh dw dh > dfWarpMemoryLimit opts \<and> (dw > 2 \<or> dh > 2))"
  shows "ChunkAndWarpImage api sys opts dx dy dw dh st
         = WarpRegion api sys opts dx dy dw dh sx sy sw sh (st\<lparr>diags := diags st @ d\<rparr>)"
  using assms(2) by (subst ChunkAndWarpImage.simps) (auto simp add: assms(1) cost_model)

lemma halves_code:
  assumes "dw > 2 \<or> dh > 2"
  shows "lower_half (dx, dy, dw, dh) = (if dw > dh then (dx, dy, dw sdiv 2, dh) else (dx, dy, dw, dh sdiv 2))"
    and "upper_half (dx, dy, dw, dh) =
           (if dw > dh then (dx + dw sdiv 2, dy, dw - dw sdiv 2, dh)
            else (dx, dy + dh sdiv 2, dw, dh - dh sdiv 2))"
  using assms by (auto simp: lower_half_def upper_half_def signed_divide_int_def)

lemma Chunk_split:
  assumes "ComputeSourceWindow api opts dx dy dw dh = (d, Inr (sx, sy, sw, sh))"
    and "spec_total_bytes api opts sw sh dw dh > dfWarpMemoryLimit opts \<and> (dw > 2 \<or> dh > 2)"
  shows "ChunkAndWarpImage api sys opts dx dy dw dh st =
     (case chunk_window api sys opts (lower_half (dx, dy, dw, dh))
             (st\<lparr>diags := diags st @ d, dfProgressScale := dfProgressScale st * 0.5\<rparr>) of
        (e1, st2) \<Rightarrow>
          (case (if e1 = CE_None then
                   chunk_window api sys opts (upper_half (dx, dy, dw, dh))
                     (st2\<lparr>dfProgressBase := dfProgressBase st2 + dfProgressScale st2\<rparr>)
                 else (e1, st2)) of
             (e, st3) \<Rightarrow>
               (e, st3\<lparr>dfProgressBase := dfProgressBase st, dfProgressScale := dfProgressScale st\<rparr>)))"
proof -
  from assms(2) have c: "dw > 2 \<or> dh > 2" by simp
  show ?thesis
    using assms(2)
    by (subst ChunkAndWarpImage.simps)
       (simp add: assms(1) cost_model halves_code[OF c] chunk_window_def Let_def split: prod.splits)
qed

lemma frame_kept_refl: "frame_kept st st"
  by (simp add: frame_kept_def progress_kept_def)

lemma frame_kept_trans: "frame_kept a b \<Longrightarrow> frame_kept b c \<Longrightarrow> frame_kept a c"
  by (simp add: frame_kept_def progress_kept_def)

lemma frame_kept_world: "frame_kept st (st\<lparr>world := w\<rparr>)"
  by (simp add: frame_kept_def progress_kept_def)

lemma frame_kept_world_diags: "frame_kept st (st\<lparr>world := w, diags := d\<rparr>)"
  by (simp add: frame_kept_def progress_kept_def)

lemma frame_kept_diags: "frame_kept st (st\<lparr>diags := d\<rparr>)"
  by (simp add: frame_kept_def progress_kept_def)

lemma allocate_if_needed_frame:
  assumes "allocate_if_needed sys pp store x y b d k st = (e, k', st')"
  shows "frame_kept st st'"
  using assms
  by (auto simp: allocate_if_needed_def Let_def frame_kept_refl frame_kept_world frame_kept_world_diags
        split: if_splits prod.splits option.splits)

lemma CreateKernelMask_frame:
  assumes "CreateKernelMask api sys k iBand t st = (e, k', st')"
  shows "frame_kept st st'"
  using assms
  by (auto simp: CreateKernelMask_def Let_def frame_kept_diags
        dest: allocate_if_needed_frame split: if_splits)

lemma load_source_band_frame:
  assumes "load_source_band api sys opts ws sx sy sw sh i k st = (e', k', st')"
  shows "frame_kept st st'"
  using assms
  by (auto simp: load_source_band_def Let_def frame_kept_world frame_kept_world_diags
        split: prod.splits if_splits)

lemma load_source_bands_frame:
  assumes "load_source_bands api sys opts ws sx sy sw sh is (e, k, st) = (e', k', st')"
  shows "frame_kept st st'"
  using assms
proof (induction "is" arbitrary: e k st)
  case Nil
  then show ?case by (simp add: frame_kept_refl)
next
  case (Cons i "is")
  show ?case
  proof (cases "e = CE_None")
    case False
    with Cons.prems show ?thesis by (simp add: frame_kept_refl)
  next
    case True
    obtain e1 k1 st1 where b: "load_source_band api sys opts ws sx sy sw sh i k st = (e1, k1, st1)"
      by (rule prod_cases3)
    from Cons.prems True b
    have "load_source_bands api sys opts ws sx sy sw sh is (e1, k1, st1) = (e', k', st')" by simp
    from Cons.IH[OF this] load_source_band_frame[OF b] show ?thesis
      by (blast intro: frame_kept_trans)
  qed
qed

lemma mask_source_band_frame:
  assumes "mask_source_band api sys opts i k st = (e', k', st')"
  shows "frame_kept st st'"
proof -
  obtain e1 k1 st1 where c: "CreateKernelMask api sys k (int i) ''BandSrcValid'' st = (e1, k1, st1)"
    by (rule prod_cases3)
  note f1 = CreateKernelMask_frame[OF c]
  from assms c have "frame_kept st1 st'"
    by (auto simp: mask_source_band_def frame_kept_refl frame_kept_world split: prod.splits if_splits)
  with f1 show ?thesis by (blast intro: frame_kept_trans)
qed

lemma mask_source_nodata_frame:
  assumes "mask_source_nodata api sys opts is (e, k, st) = (e', k', st')"
  shows "frame_kept st st'"
  using assms
proof (induction "is" arbitrary: e k st)
  case Nil
  then show ?case by (simp add: frame_kept_refl)
next
  case (Cons i "is")
  show ?case
  proof (cases "e = CE_None")
    case False
    with Cons.prems show ?thesis by (simp add: frame_kept_refl)
  next
    case True
    obtain e1 k1 st1 where b: "mask_source_band api sys opts i k st = (e1, k1, st1)"
      by (rule prod_cases3)
    from Cons.prems True b
    have "mask_source_nodata api sys opts is (e1, k1, st1) = (e', k', st')" by simp
    from Cons.IH[OF this] mask_source_band_frame[OF b] show ?thesis
      by (blast intro: frame_kept_trans)
  qed
qed

lemma WarpRegionToBuffer_frame:
  assumes "WarpRegionToBuffer api sys opts dx dy dw dh buf bt sx sy sw sh st = (e, st')"
  shows "frame_kept st st'"
proof -
  let ?ws = "GDALGetDataTypeSize api (eWorkingDataType opts) sdiv 8"
  let ?bands = "[0..<nat (nBandCount opts)]"
  obtain st1 r where w: "(if sw = 0 \<and> sh = 0 then
                 (case ComputeSourceWindow api opts dx dy dw dh of
                    (d, r) \<Rightarrow> (st\<lparr>diags := diags st @ d\<rparr>, r))
               else (st, Inr (sx, sy, sw, sh))) = (st1, r)"
    by (rule prod.exhaust)
  then have f1: "frame_kept st st1"
    by (auto simp: frame_kept_refl frame_kept_diags split: if_splits prod.splits)
  show ?thesis
  proof (cases r)
    case (Inl err)
    with assms w have "st' = st1" by (simp add: WarpRegionToBuffer_def Let_def)
    with f1 show ?thesis by simp
  next
    case (Inr win)
    obtain x y xs ys where win: "win = (x, y, xs, ys)" by (rule prod_cases4)
    let ?k0 = "new_kernel
                    \<lparr>wk_eResample := eResampleAlg opts,
                     wk_nBands := nBandCount opts,
                     wk_eWorkingDataType := eWorkingDataType opts,
                     wk_pfnTransformer := pfnTransformer opts,
                     wk_pfnProgress := pfnProgress opts,
                     wk_dfProgressBase := dfProgressBase st1,
                     wk_dfProgressScale := dfProgressScale st1,
                     wk_papszWarpOptions := papszWarpOptions opts,
                     wk_nSrcXOff := x, wk_nSrcYOff := y, wk_nSrcXSize := xs, wk_nSrcYSize := ys\<rparr>"
    obtain e2 k2 st2 where l: "load_source_bands api sys opts ?ws x y xs ys ?bands (CE_None, ?k0, st1) = (e2, k2, st2)"
      by (rule prod_cases3)
    note f2 = load_source_bands_frame[OF l]
    let ?k3 = "wire_dest_bands buf dw dh ?ws ?bands e2
                                   (k2\<lparr>wk_nDstXOff := dx, wk_nDstYOff := dy,
                                          wk_nDstXSize := dw, wk_nDstYSize := dh\<rparr>)"
    obtain e4 k4 st4 where m: "(if padfSrcNoDataReal opts \<noteq> None then
                                 mask_source_nodata api sys opts ?bands (e2, ?k3, st2)
                               else (e2, ?k3, st2)) = (e4, k4, st4)"
      by (rule prod_cases3)
    have f3: "frame_kept st2 st4"
      using m by (auto simp: frame_kept_refl dest: mask_source_nodata_frame split: if_splits)
    obtain e5 w5 where p: "(if e4 = CE_None then PerformWarp sys k4 (world st4)
                                    else (e4, world st4)) = (e5, w5)"
      by (rule prod.exhaust)
    from assms w Inr win l m p
    have "st' = st4\<lparr>world := free_source_bands sys k4 ?bands w5\<rparr>"
      by (simp add: WarpRegionToBuffer_def Let_def)
    with f1 f2 f3 frame_kept_world[of st4] show ?thesis
      by (metis frame_kept_trans)
  qed
qed

lemma WarpRegion_frame:
  assumes "WarpRegion api sys opts dx dy dw dh sx sy sw sh st = (e, st')"
  shows "progress_kept st st' \<and> regions st' = regions st @ [((dx, dy, dw, dh), (sx, sy, sw, sh))]"
proof -
  define st0 where "st0 = st\<lparr>regions := regions st @ [((dx, dy, dw, dh), (sx, sy, sw, sh))]\<rparr>"
  have "frame_kept st0 st'"
    using assms
    by (auto simp: WarpRegion_def Let_def st0_def frame_kept_world frame_kept_world_diags
          dest!: WarpRegionToBuffer_frame
          intro: frame_kept_trans[OF frame_kept_world] frame_kept_trans[OF _ frame_kept_world]
          split: prod.splits option.splits if_splits)
  then show ?thesis
    by (simp add: frame_kept_def progress_kept_def st0_def)
qed

lemma Chunk_progress_kept:
  "progress_kept st (snd (ChunkAndWarpImage api sys opts dx dy dw dh st))"
proof -
  obtain d r where c: "ComputeSourceWindow api opts dx dy dw dh = (d, r)"
    by (rule prod.exhaust)
  show ?thesis
  proof (cases r)
    case (Inl e)
    with c show ?thesis by (simp add: Chunk_fail progress_kept_def)
  next
    case (Inr win)
    obtain sx sy sw sh where win: "win = (sx, sy, sw, sh)" by (rule prod_cases4)
    note c' = c[unfolded Inr win]
    show ?thesis
    proof (cases "spec_total_bytes api opts sw sh dw dh > dfWarpMemoryLimit opts \<and> (dw > 2 \<or> dh > 2)")
      case True
      show ?thesis
        unfolding Chunk_split[OF c' True]
        by (simp add: progress_kept_def split: prod.splits)
    next
      case False
      obtain e st' where w: "WarpRegion api sys opts dx dy dw dh sx sy sw sh (st\<lparr>diags := diags st @ d\<rparr>) = (e, st')"
        by (rule prod.exhaust)
      from WarpRegion_frame[OF w] show ?thesis
        unfolding Chunk_leaf[OF c' False] w by (simp add: progress_kept_def)
    qed
  qed
qed

text \<open>
  C5: whatever the rectangle and the outcome, \<^verbatim>\<open>dfProgressBase\<close> and
  \<^verbatim>\<open>dfProgressScale\<close> after \<^verbatim>\<open>ChunkAndWarpImage\<close> are what they were before: the split
  path restores the saved values on every return, and \<^verbatim>\<open>WarpRegion\<close>, the path without
  a split, does not assign them.
\<close>

theorem C5_progress_restored:
  "dfProgressBase (snd (ChunkAndWarpImage api sys opts dx dy dw dh st)) = dfProgressBase st \<and>
   dfProgressScale (snd (ChunkAndWarpImage api sys opts dx dy dw dh st)) = dfProgressScale st \<and>
   dfProgressBase (snd (WarpRegion api sys opts dx dy dw dh sx sy sw sh st)) = dfProgressBase st \<and>
   dfProgressScale (snd (WarpRegion api sys opts dx dy dw dh sx sy sw sh st)) = dfProgressScale st"
proof -
  obtain e st' where w: "WarpRegion api sys opts dx dy dw dh sx sy sw sh st = (e, st')"
    by (rule prod.exhaust)
  from WarpRegion_frame[OF w] Chunk_progress_kept[of st api sys opts dx dy dw dh]
  show ?thesis unfolding w by (simp add: progress_kept_def)
qed

lemma ComputeSourceWindow_Inl:
  assumes "snd (ComputeSourceWindow api opts dx dy dw dh) = Inl e"
  shows "e = CE_Failure"
proof -
  obtain bOK X Y Z ok where out: "the (pfnTransformer opts) True 84 (adfX (sample_fold dx dy dw dh 21))
      (adfY (sample_fold dx dy dw dh 21)) (adfZ (sample_fold dx dy dw dh 21)) = (bOK, X, Y, Z, ok)"
    by (rule prod_cases5)
  from assms show ?thesis
    unfolding ComputeSourceWindow_eval[OF out] by (simp split: if_splits)
qed

lemma ComputeSourceWindow_failure:
  assumes "pfnTransformer opts = Some tr"
    and "tr True 84 (adfX (sample_loop dx dy dw dh 0 no_samples)) (adfY (sample_loop dx dy dw dh 0 no_samples))
            (adfZ (sample_loop dx dy dw dh 0 no_samples)) = (bOK, X, Y, Z, ok)"
    and "\<not> bOK \<or> length (survivors ok) < 10"
  shows "ComputeSourceWindow api opts dx dy dw dh
           = ([if \<not> bOK then err_transformer_failed else err_too_many_failed], Inl CE_Failure)"
proof -
  have out: "the (pfnTransformer opts) True 84 (adfX (sample_fold dx dy dw dh 21))
      (adfY (sample_fold dx dy dw dh 21)) (adfZ (sample_fold dx dy dw dh 21)) = (bOK, X, Y, Z, ok)"
    using assms(1,2) by (simp add: sample_loop_fold)
  show ?thesis
    unfolding ComputeSourceWindow_eval[OF out] using assms(3) by auto
qed

text \<open>
  C10: when the estimation of the source window fails for the rectangle, because the
  transformer rejects the batch or fewer than 10 points survive, \<^verbatim>\<open>ChunkAndWarpImage\<close>
  returns \<^verbatim>\<open>CE_Failure\<close> with the world (heap, datasets, kernel), the record of region
  calls and the progress members as they were; only the diagnostic is added.
\<close>

theorem C10_estimation_failure_aborts:
  assumes "pfnTransformer opts = Some tr"
    and "tr True 84 (adfX (sample_loop dx dy dw dh 0 no_samples)) (adfY (sample_loop dx dy dw dh 0 no_samples))
            (adfZ (sample_loop dx dy dw dh 0 no_samples)) = (bOK, X, Y, Z, ok)"
    and "\<not> bOK \<or> length (survivors ok) < 10"
  shows "ChunkAndWarpImage api sys opts dx dy dw dh st
           = (CE_Failure,
              st\<lparr>diags := diags st @ [if \<not> bOK then err_transformer_failed else err_too_many_failed]\<rparr>) \<and>
         world (snd (ChunkAndWarpImage api sys opts dx dy dw dh st)) = world st \<and>
         regions (snd (ChunkAndWarpImage api sys opts dx dy dw dh st)) = regions st \<and>
         dfProgressBase (snd (ChunkAndWarpImage api sys opts dx dy dw dh st)) = dfProgressBase st \<and>
         dfProgressScale (snd (ChunkAndWarpImage api sys opts dx dy dw dh st)) = dfProgressScale st"
  unfolding Chunk_fail[OF ComputeSourceWindow_failure[OF assms]] by simp

theorem C10_estimation_failure_aborts_witness:
  "ChunkAndWarpImage example_api (example_sys CE_None)
      (example_options GRA_Cubic (box_transformer (\<lambda>i. i < 9))) 0 0 100 100 example_state
     = (CE_Failure, example_state\<lparr>diags := [err_too_many_failed]\<rparr>) \<and>
   world (snd (ChunkAndWarpImage example_api (example_sys CE_None)
      (example_options GRA_Cubic (box_transformer (\<lambda>i. i < 9))) 0 0 100 100 example_state)) = 0"
proof -
  let ?s = "sample_loop 0 0 100 100 0 no_samples"
  have h1: "pfnTransformer (example_options GRA_Cubic (box_transformer (\<lambda>i. i < 9)))
              = Some (box_transformer (\<lambda>i. i < 9))"
    by (simp add: example_options_sel)
  have h2: "box_transformer (\<lambda>i. i < 9) True 84 (adfX ?s) (adfY ?s) (adfZ ?s)
              = (True, box_X, box_Y, adfZ ?s, (\<lambda>i. i < 9))"
    by (simp add: box_transformer_def)
  have n: "length (survivors (\<lambda>i. i < 9)) = 9" by code_simp
  have h3: "\<not> True \<or> length (survivors (\<lambda>i. i < 9)) < 10" by (simp add: n)
  show ?thesis
    using C10_estimation_failure_aborts[OF h1 h2 h3, of example_api "example_sys CE_None" example_state]
    by (simp add: example_state_def)
qed

lemma one_band: "[0..<nat (nBandCount ident_options)] = [0]"
  by (simp add: ident_options_def example_options_def)

lemma ident_options_sel:
  "eWorkingDataType ident_options = 1" "nBandCount ident_options = 1"
  "papszWarpOptions ident_options = []" "padfSrcNoDataReal ident_options = None"
  "hSrcDS ident_options = Some 1" "hDstDS ident_options = Some 2"
  "dfWarpMemoryLimit ident_options = 100000"
  "pfnTransformer ident_options = Some (shift_transformer 0 0)"
  "eResampleAlg ident_options = GRA_NearestNeighbour"
  by (simp_all add: ident_options_def example_options_def)

lemma example_api_more:
  "GDALGetDataTypeSize example_api t = 8"
  "CSLFetchNameValue example_api l k = None"
  "GDALGetRasterBand example_api ds n = Some (nat n)"
  by (simp_all add: example_api_def)

lemma example_sys_sel:
  "VSIMalloc (example_sys e) n w = (Some (Ptr w 0), Suc w)"
  "VSIFree (example_sys e) p w = Suc w"
  "CPLFree (example_sys e) p w = Suc w"
  "GDALRasterIO (example_sys e) b f x y xs ys pp bx by t w = (CE_None, Suc w)"
  "PerformWarp (example_sys e) k w = (e, Suc w)"
  by (simp_all add: example_sys_def)

lemma example_WarpRegion:
  assumes "sw \<noteq> 0 \<or> sh \<noteq> 0"
  shows "WarpRegion example_api (example_sys e) ident_options dx dy dw dh sx sy sw sh st
     = (e, st\<lparr>regions := regions st @ [((dx, dy, dw, dh), (sx, sy, sw, sh))],
               world := world st + (if e = CE_None then 8 else 7)\<rparr>)"
  using assms
  by (auto simp add: WarpRegion_def WarpRegionToBuffer_def Let_def one_band ident_options_sel
        load_source_band_def example_sys_sel example_api_more)

lemma pixels_halves:
  assumes "dw > 2 \<or> dh > 2"
  shows "pixels (lower_half (dx, dy, dw, dh)) \<union> pixels (upper_half (dx, dy, dw, dh)) = pixels (dx, dy, dw, dh)"
    and "pixels (lower_half (dx, dy, dw, dh)) \<inter> pixels (upper_half (dx, dy, dw, dh)) = {}"
  using assms by (auto simp: pixels_def lower_half_def upper_half_def)

lemma halves_smaller:
  assumes "dw > 2 \<or> dh > 2"
    and "lower_half (dx, dy, dw, dh) = (x1, y1, w1, h1)"
    and "upper_half (dx, dy, dw, dh) = (x2, y2, w2, h2)"
  shows "nat w1 + nat h1 < nat dw + nat dh" and "nat w2 + nat h2 < nat dw + nat dh"
  using assms by (auto simp: lower_half_def upper_half_def split: if_splits)

lemma disjoint_windows_append:
  "disjoint_windows (as @ bs) \<longleftrightarrow>
     disjoint_windows as \<and> disjoint_windows bs \<and>
     (\<forall>a \<in> set as. \<forall>b \<in> set bs. pixels a \<inter> pixels b = {})"
  by (induction as) auto

lemma leaves_in_nil: "leaves_in [] r False"
  by (simp add: leaves_in_def)

lemma leaves_in_single: "leaves_in [r] r c"
  by (simp add: leaves_in_def)

lemma leaves_in_first:
  assumes "leaves_in L1 lo c1" and "pixels lo \<union> pixels up = pixels r"
  shows "leaves_in L1 r False"
proof -
  from assms(1) have d: "disjoint_windows L1" and s: "(\<Union>l \<in> set L1. pixels l) \<subseteq> pixels lo"
    by (simp_all add: leaves_in_def)
  from assms(2) have "pixels lo \<subseteq> pixels r" by blast
  with s have "(\<Union>l \<in> set L1. pixels l) \<subseteq> pixels r" by (rule subset_trans)
  with d show ?thesis by (simp add: leaves_in_def)
qed

lemma leaves_in_both:
  assumes "leaves_in L1 lo True" and "leaves_in L2 up c2"
    and u: "pixels lo \<union> pixels up = pixels r" and i: "pixels lo \<inter> pixels up = {}"
  shows "leaves_in (L1 @ L2) r c2"
proof -
  from assms(1) have d1: "disjoint_windows L1" and e1: "(\<Union>l \<in> set L1. pixels l) = pixels lo"
    by (simp_all add: leaves_in_def)
  from assms(2) have d2: "disjoint_windows L2" and s2: "(\<Union>l \<in> set L2. pixels l) \<subseteq> pixels up"
    and e2: "c2 \<longrightarrow> (\<Union>l \<in> set L2. pixels l) = pixels up"
    by (simp_all add: leaves_in_def)
  have x: "pixels a \<inter> pixels b = {}" if "a \<in> set L1" "b \<in> set L2" for a b
  proof -
    from that(1) e1 have "pixels a \<subseteq> pixels lo" by blast
    moreover from that(2) s2 have "pixels b \<subseteq> pixels up" by blast
    ultimately show ?thesis using i by blast
  qed
  have d: "disjoint_windows (L1 @ L2)"
    unfolding disjoint_windows_append using d1 d2 x by blast
  have un: "(\<Union>l \<in> set (L1 @ L2). pixels l) = pixels lo \<union> (\<Union>l \<in> set L2. pixels l)"
    using e1 by auto
  have s: "(\<Union>l \<in> set (L1 @ L2). pixels l) \<subseteq> pixels r"
    unfolding un using s2 u by blast
  have c: "c2 \<longrightarrow> (\<Union>l \<in> set (L1 @ L2). pixels l) = pixels r"
    unfolding un using e2 u by simp
  from d s c show ?thesis unfolding leaves_in_def by blast
qed

lemma Chunk_leaves:
  "\<exists>L. regions (snd (ChunkAndWarpImage api sys opts dx dy dw dh st)) = regions st @ L \<and>
       leaves_in (map fst L) (dx, dy, dw, dh) (fst (ChunkAndWarpImage api sys opts dx dy dw dh st) = CE_None)"
proof (induction "nat dw + nat dh" arbitrary: dx dy dw dh st rule: less_induct)
  case less
  obtain d r where c: "ComputeSourceWindow api opts dx dy dw dh = (d, r)"
    by (rule prod.exhaust)
  show ?case
  proof (cases r)
    case (Inl e)
    from c Inl have "snd (ComputeSourceWindow api opts dx dy dw dh) = Inl e" by simp
    then have e: "e = CE_Failure" by (rule ComputeSourceWindow_Inl)
    have res: "ChunkAndWarpImage api sys opts dx dy dw dh st = (CE_Failure, st\<lparr>diags := diags st @ d\<rparr>)"
      using Chunk_fail[OF c[unfolded Inl e]] .
    have "regions (st\<lparr>diags := diags st @ d\<rparr>) = regions st @ []" by simp
    moreover have "leaves_in (map fst []) (dx, dy, dw, dh) (CE_Failure = CE_None)"
      by (simp add: leaves_in_nil)
    ultimately show ?thesis unfolding res fst_conv snd_conv by (rule exI[of _ "[]", OF conjI])
  next
    case (Inr win)
    obtain sx sy sw sh where win: "win = (sx, sy, sw, sh)" by (rule prod_cases4)
    note c' = c[unfolded Inr win]
    show ?thesis
    proof (cases "spec_total_bytes api opts sw sh dw dh > dfWarpMemoryLimit opts \<and> (dw > 2 \<or> dh > 2)")
      case False
      obtain e st' where w: "WarpRegion api sys opts dx dy dw dh sx sy sw sh (st\<lparr>diags := diags st @ d\<rparr>) = (e, st')"
        by (rule prod.exhaust)
      from WarpRegion_frame[OF w]
      have "regions st' = regions st @ [((dx, dy, dw, dh), (sx, sy, sw, sh))]" by simp
      moreover have "leaves_in (map fst [((dx, dy, dw, dh), (sx, sy, sw, sh))]) (dx, dy, dw, dh) (e = CE_None)"
        by (simp add: leaves_in_single)
      ultimately show ?thesis
        unfolding Chunk_leaf[OF c' False] w fst_conv snd_conv
        by (rule exI[of _ "[((dx, dy, dw, dh), (sx, sy, sw, sh))]", OF conjI])
    next
      case True
      then have gt: "dw > 2 \<or> dh > 2" by simp
      obtain x1 y1 w1 h1 where lo: "lower_half (dx, dy, dw, dh) = (x1, y1, w1, h1)" by (rule prod_cases4)
      obtain x2 y2 w2 h2 where up: "upper_half (dx, dy, dw, dh) = (x2, y2, w2, h2)" by (rule prod_cases4)
      note sm = halves_smaller[OF gt lo up]
      note px = pixels_halves[OF gt, of dx dy, unfolded lo up]
      let ?st1 = "st\<lparr>diags := diags st @ d, dfProgressScale := dfProgressScale st * 0.5\<rparr>"
      obtain e1 st2 where r1: "ChunkAndWarpImage api sys opts x1 y1 w1 h1 ?st1 = (e1, st2)"
        by (rule prod.exhaust)
      have rg1: "regions ?st1 = regions st" by simp
      from less[OF sm(1), of x1 y1 ?st1]
      obtain L1 where L1: "regions st2 = regions st @ L1" "leaves_in (map fst L1) (x1, y1, w1, h1) (e1 = CE_None)"
        unfolding r1 fst_conv snd_conv rg1 by (elim exE conjE)
      show ?thesis
      proof (cases "e1 = CE_None")
        case False
        have res: "ChunkAndWarpImage api sys opts dx dy dw dh st
                 = (e1, st2\<lparr>dfProgressBase := dfProgressBase st, dfProgressScale := dfProgressScale st\<rparr>)"
          unfolding Chunk_split[OF c' True] lo up chunk_window_def using r1 False by simp
        have a: "regions (st2\<lparr>dfProgressBase := dfProgressBase st, dfProgressScale := dfProgressScale st\<rparr>)
                   = regions st @ L1"
          using L1(1) by simp
        have b: "leaves_in (map fst L1) (dx, dy, dw, dh) (e1 = CE_None)"
          using leaves_in_first[OF L1(2) px(1)] False by simp
        from a b show ?thesis unfolding res fst_conv snd_conv by (rule exI[of _ L1, OF conjI])
      next
        case e1: True
        let ?st2 = "st2\<lparr>dfProgressBase := dfProgressBase st2 + dfProgressScale st2\<rparr>"
        obtain e2 st3 where r2: "ChunkAndWarpImage api sys opts x2 y2 w2 h2 ?st2 = (e2, st3)"
          by (rule prod.exhaust)
        have rg2: "regions ?st2 = regions st2" by simp
        from less[OF sm(2), of x2 y2 ?st2]
        obtain L2 where L2: "regions st3 = regions st2 @ L2" "leaves_in (map fst L2) (x2, y2, w2, h2) (e2 = CE_None)"
          unfolding r2 fst_conv snd_conv rg2 by (elim exE conjE)
        have res: "ChunkAndWarpImage api sys opts dx dy dw dh st
                 = (e2, st3\<lparr>dfProgressBase := dfProgressBase st, dfProgressScale := dfProgressScale st\<rparr>)"
          unfolding Chunk_split[OF c' True] lo up chunk_window_def using r1 r2 e1 by simp
        have a: "regions (st3\<lparr>dfProgressBase := dfProgressBase st, dfProgressScale := dfProgressScale st\<rparr>)
                   = regions st @ (L1 @ L2)"
          using L1(1) L2(1) by simp
        from L1(2) e1 have l1: "leaves_in (map fst L1) (x1, y1, w1, h1) True" by simp
        have b: "leaves_in (map fst (L1 @ L2)) (dx, dy, dw, dh) (e2 = CE_None)"
          using leaves_in_both[OF l1 L2(2) px] by simp
        from a b show ?thesis unfolding res fst_conv snd_conv by (rule exI[of _ "L1 @ L2", OF conjI])
      qed
    qed
  qed
qed

lemma ident_window:
  assumes "Min ((\<lambda>i. adfX (sample_fold dx dy dw dh 21) i + 0) ` set (survivors (\<lambda>i. True))) = a"
    and "Max ((\<lambda>i. adfX (sample_fold dx dy dw dh 21) i + 0) ` set (survivors (\<lambda>i. True))) = b"
    and "Min ((\<lambda>i. adfY (sample_fold dx dy dw dh 21) i + 0) ` set (survivors (\<lambda>i. True))) = c"
    and "Max ((\<lambda>i. adfY (sample_fold dx dy dw dh 21) i + 0) ` set (survivors (\<lambda>i. True))) = d"
  shows "ComputeSourceWindow example_api ident_options dx dy dw dh
           = ([], Inr (src_window_of_bounds 0 300 300 a b c d))"
proof -
  let ?s = "sample_fold dx dy dw dh 21"
  have h: "the (pfnTransformer ident_options) True 84 (adfX ?s) (adfY ?s) (adfZ ?s)
     = (True, (\<lambda>i. adfX ?s i + 0), (\<lambda>i. adfY ?s i + 0), adfZ ?s, (\<lambda>i. True))"
    by (simp add: shift_transformer_def ident_options_sel)
  show ?thesis
    unfolding ComputeSourceWindow_eval[OF h] assms
    by (simp add: survivors_all nResWinSize_def ident_options_sel example_api_sel)
qed

lemma ident_bounds_top:
  "Min ((\<lambda>i. adfX (sample_fold 0 0 400 200 21) i + 0) ` set (survivors (\<lambda>i. True))) = 0"
  "Max ((\<lambda>i. adfX (sample_fold 0 0 400 200 21) i + 0) ` set (survivors (\<lambda>i. True))) = 400"
  "Min ((\<lambda>i. adfY (sample_fold 0 0 400 200 21) i + 0) ` set (survivors (\<lambda>i. True))) = 0"
  "Max ((\<lambda>i. adfY (sample_fold 0 0 400 200 21) i + 0) ` set (survivors (\<lambda>i. True))) = 200"
  by code_simp+

lemma ident_bounds_lower:
  "Min ((\<lambda>i. adfX (sample_fold 0 0 200 200 21) i + 0) ` set (survivors (\<lambda>i. True))) = 0"
  "Max ((\<lambda>i. adfX (sample_fold 0 0 200 200 21) i + 0) ` set (survivors (\<lambda>i. True))) = 200"
  "Min ((\<lambda>i. adfY (sample_fold 0 0 200 200 21) i + 0) ` set (survivors (\<lambda>i. True))) = 0"
  "Max ((\<lambda>i. adfY (sample_fold 0 0 200 200 21) i + 0) ` set (survivors (\<lambda>i. True))) = 200"
  by code_simp+

lemma ident_bounds_upper:
  "Min ((\<lambda>i. adfX (sample_fold 200 0 200 200 21) i + 0) ` set (survivors (\<lambda>i. True))) = 200"
  "Max ((\<lambda>i. adfX (sample_fold 200 0 200 200 21) i + 0) ` set (survivors (\<lambda>i. True))) = 400"
  "Min ((\<lambda>i. adfY (sample_fold 200 0 200 200 21) i + 0) ` set (survivors (\<lambda>i. True))) = 0"
  "Max ((\<lambda>i. adfY (sample_fold 200 0 200 200 21) i + 0) ` set (survivors (\<lambda>i. True))) = 200"
  by code_simp+

lemma ident_windows:
  "ComputeSourceWindow example_api ident_options 0 0 400 200 = ([], Inr (0, 0, 300, 200))"
  "ComputeSourceWindow example_api ident_options 0 0 200 200 = ([], Inr (0, 0, 200, 200))"
  "ComputeSourceWindow example_api ident_options 200 0 200 200 = ([], Inr (200, 0, 100, 200))"
  unfolding ident_window[OF ident_bounds_top] ident_window[OF ident_bounds_lower]
    ident_window[OF ident_bounds_upper]
  by (simp_all add: src_window_of_bounds_def)

lemma ident_costs:
  "spec_total_bytes example_api ident_options sw sh dw dh = real_of_int (sw * sh + dw * dh)"
  by (simp add: spec_total_bytes_def spec_src_bits_def spec_dst_bits_def ident_options_def
        example_options_def example_api_def)

lemma ident_halves:
  "lower_half (0, 0, 400, 200) = (0, 0, 200, 200)"
  "upper_half (0, 0, 400, 200) = (200, 0, 200, 200)"
  by (simp_all add: lower_half_def upper_half_def)

lemma ident_leaf_lower:
  "ChunkAndWarpImage example_api (example_sys e) ident_options 0 0 200 200 st
     = (e, st\<lparr>regions := regions st @ [((0, 0, 200, 200), (0, 0, 200, 200))],
               world := world st + (if e = CE_None then 8 else 7)\<rparr>)"
proof -
  have n: "\<not> (spec_total_bytes example_api ident_options 200 200 200 200 > dfWarpMemoryLimit ident_options
              \<and> ((200::int) > 2 \<or> (200::int) > 2))"
    by (simp add: ident_costs ident_options_sel)
  show ?thesis
    unfolding Chunk_leaf[OF ident_windows(2) n]
    by (simp add: example_WarpRegion)
qed

lemma ident_leaf_upper:
  "ChunkAndWarpImage example_api (example_sys e) ident_options 200 0 200 200 st
     = (e, st\<lparr>regions := regions st @ [((200, 0, 200, 200), (200, 0, 100, 200))],
               world := world st + (if e = CE_None then 8 else 7)\<rparr>)"
proof -
  have n: "\<not> (spec_total_bytes example_api ident_options 100 200 200 200 > dfWarpMemoryLimit ident_options
              \<and> ((200::int) > 2 \<or> (200::int) > 2))"
    by (simp add: ident_costs ident_options_sel)
  show ?thesis
    unfolding Chunk_leaf[OF ident_windows(3) n]
    by (simp add: example_WarpRegion)
qed

lemma ident_split_cond:
  "spec_total_bytes example_api ident_options 300 200 400 200 > dfWarpMemoryLimit ident_options
     \<and> ((400::int) > 2 \<or> (200::int) > 2)"
  by (simp add: ident_costs ident_options_sel)

lemma ident_run_ok:
  "ChunkAndWarpImage example_api (example_sys CE_None) ident_options 0 0 400 200 example_state
     = (CE_None,
        example_state\<lparr>regions := [((0, 0, 200, 200), (0, 0, 200, 200)), ((200, 0, 200, 200), (200, 0, 100, 200))],
                       world := 16\<rparr>)"
  unfolding Chunk_split[OF ident_windows(1) ident_split_cond] ident_halves chunk_window_def
  by (simp add: ident_leaf_lower ident_leaf_upper example_state_def)

lemma ident_run_fail:
  "ChunkAndWarpImage example_api (example_sys CE_Failure) ident_options 0 0 400 200 example_state
     = (CE_Failure,
        example_state\<lparr>regions := [((0, 0, 200, 200), (0, 0, 200, 200))], world := 7\<rparr>)"
  unfolding Chunk_split[OF ident_windows(1) ident_split_cond] ident_halves chunk_window_def
  by (simp add: ident_leaf_lower example_state_def)

text \<open>
  C2: the cost that the method computes is \<open>(src_bits sw sh + dst_bits dw dh) / 8\<close> with
  the bits per pixel of the cost model; when the cost exceeds the budget and
  \<open>dw > 2\<close> or \<open>dh > 2\<close> the method is the recursion on the lower half, then on the
  upper half if the first succeeded, of the longer dimension, and otherwise it is
  \<^verbatim>\<open>WarpRegion\<close> on the whole chunk with the source window already computed.
\<close>

theorem C2_memory_cost_and_split:
  assumes "ComputeSourceWindow api opts dx dy dw dh = (d, Inr (sx, sy, sw, sh))"
  shows "nSrcPixelCostInBits api opts = spec_src_bits api opts \<and>
         nDstPixelCostInBits api opts = spec_dst_bits api opts \<and>
         dfTotalMemoryUse api opts sw sh dw dh = spec_total_bytes api opts sw sh dw dh \<and>
         (spec_total_bytes api opts sw sh dw dh > dfWarpMemoryLimit opts \<and> (dw > 2 \<or> dh > 2) \<longrightarrow>
            ChunkAndWarpImage api sys opts dx dy dw dh st =
              (case chunk_window api sys opts (lower_half (dx, dy, dw, dh))
                      (st\<lparr>diags := diags st @ d, dfProgressScale := dfProgressScale st * 0.5\<rparr>) of
                 (e1, st2) \<Rightarrow>
                   (case (if e1 = CE_None then
                            chunk_window api sys opts (upper_half (dx, dy, dw, dh))
                              (st2\<lparr>dfProgressBase := dfProgressBase st2 + dfProgressScale st2\<rparr>)
                          else (e1, st2)) of
                      (e, st3) \<Rightarrow>
                        (e, st3\<lparr>dfProgressBase := dfProgressBase st,
                                 dfProgressScale := dfProgressScale st\<rparr>)))) \<and>
         (\<not> (spec_total_bytes api opts sw sh dw dh > dfWarpMemoryLimit opts \<and> (dw > 2 \<or> dh > 2)) \<longrightarrow>
            ChunkAndWarpImage api sys opts dx dy dw dh st
              = WarpRegion api sys opts dx dy dw dh sx sy sw sh (st\<lparr>diags := diags st @ d\<rparr>))"
  using Chunk_split[OF assms, of sys st] Chunk_leaf[OF assms, of sys st]
  by (simp only: cost_model simp_thms) blast

theorem C2_memory_cost_and_split_witness:
  "dfTotalMemoryUse example_api ident_options 300 200 400 200 = 140000 \<and>
   dfWarpMemoryLimit ident_options = 100000 \<and>
   ChunkAndWarpImage example_api (example_sys CE_None) ident_options 0 0 400 200 example_state =
     (case ChunkAndWarpImage example_api (example_sys CE_None) ident_options 0 0 200 200
             (example_state\<lparr>dfProgressScale := 0.5\<rparr>) of
        (e1, st2) \<Rightarrow>
          (case (if e1 = CE_None then
                   ChunkAndWarpImage example_api (example_sys CE_None) ident_options 200 0 200 200
                     (st2\<lparr>dfProgressBase := dfProgressBase st2 + dfProgressScale st2\<rparr>)
                 else (e1, st2)) of
             (e, st3) \<Rightarrow> (e, st3\<lparr>dfProgressBase := 0, dfProgressScale := 1\<rparr>))) \<and>
   dfTotalMemoryUse example_api ident_options 200 200 200 200 = 80000 \<and>
   ChunkAndWarpImage example_api (example_sys CE_None) ident_options 0 0 200 200 example_state
     = WarpRegion example_api (example_sys CE_None) ident_options 0 0 200 200 0 0 200 200 example_state"
proof -
  let ?sys = "example_sys CE_None"
  note top = C2_memory_cost_and_split[OF ident_windows(1), of ?sys example_state]
  note low = C2_memory_cost_and_split[OF ident_windows(2), of ?sys example_state]
  have st: "example_state\<lparr>diags := diags example_state @ []\<rparr> = example_state"
    "example_state\<lparr>diags := diags example_state @ [], dfProgressScale := dfProgressScale example_state * 0.5\<rparr>
       = example_state\<lparr>dfProgressScale := 0.5\<rparr>"
    "dfProgressBase example_state = 0" "dfProgressScale example_state = 1"
    by (simp_all add: example_state_def)
  have n: "\<not> (spec_total_bytes example_api ident_options 200 200 200 200 > dfWarpMemoryLimit ident_options
              \<and> ((200::int) > 2 \<or> (200::int) > 2))"
    by (simp add: ident_costs ident_options_sel)
  from top have a: "dfTotalMemoryUse example_api ident_options 300 200 400 200 = 140000"
    by (simp add: ident_costs)
  note b = top[THEN conjunct2, THEN conjunct2, THEN conjunct2, THEN conjunct1, THEN mp, OF ident_split_cond,
      unfolded ident_halves chunk_window_def prod.case st]
  from low have c: "dfTotalMemoryUse example_api ident_options 200 200 200 200 = 80000"
    by (simp add: ident_costs)
  note e = low[THEN conjunct2, THEN conjunct2, THEN conjunct2, THEN conjunct2, THEN mp, OF n, unfolded st]
  from a b c e show ?thesis by (simp add: ident_options_sel)
qed

lemma example_state_regions: "regions example_state = []"
  by (simp add: example_state_def)

lemma leaf_chunks_append:
  assumes "regions st' = regions st @ L"
  shows "leaf_chunks st st' = map fst L"
  using assms by (simp add: leaf_chunks_def)

text \<open>
  C6, as amended: when \<^verbatim>\<open>ChunkAndWarpImage\<close> returns \<^verbatim>\<open>CE_None\<close>, the leaf chunks on
  which it called the region executor tile the destination rectangle, without overlap
  and without gap; whatever it returns, the leaf chunks are pairwise disjoint and lie
  in the rectangle; and the two halves of a split are disjoint and their union is the
  parent.
\<close>

theorem C6_leaves_tile_on_success:
  "(fst (ChunkAndWarpImage api sys opts dx dy dw dh st) = CE_None \<longrightarrow>
      tiles (leaf_chunks st (snd (ChunkAndWarpImage api sys opts dx dy dw dh st))) (dx, dy, dw, dh)) \<and>
   disjoint_windows (leaf_chunks st (snd (ChunkAndWarpImage api sys opts dx dy dw dh st))) \<and>
   (\<Union>l \<in> set (leaf_chunks st (snd (ChunkAndWarpImage api sys opts dx dy dw dh st))). pixels l)
      \<subseteq> pixels (dx, dy, dw, dh) \<and>
   (dw > 2 \<or> dh > 2 \<longrightarrow>
      pixels (lower_half (dx, dy, dw, dh)) \<inter> pixels (upper_half (dx, dy, dw, dh)) = {} \<and>
      pixels (lower_half (dx, dy, dw, dh)) \<union> pixels (upper_half (dx, dy, dw, dh)) = pixels (dx, dy, dw, dh))"
proof -
  from Chunk_leaves[of api sys opts dx dy dw dh st]
  obtain L where L: "regions (snd (ChunkAndWarpImage api sys opts dx dy dw dh st)) = regions st @ L"
    "leaves_in (map fst L) (dx, dy, dw, dh) (fst (ChunkAndWarpImage api sys opts dx dy dw dh st) = CE_None)"
    by blast
  note lc = leaf_chunks_append[OF L(1)]
  from L(2) have "disjoint_windows (map fst L)"
    "(\<Union>l \<in> set (map fst L). pixels l) \<subseteq> pixels (dx, dy, dw, dh)"
    "fst (ChunkAndWarpImage api sys opts dx dy dw dh st) = CE_None \<longrightarrow>
       (\<Union>l \<in> set (map fst L). pixels l) = pixels (dx, dy, dw, dh)"
    unfolding leaves_in_def by blast+
  then show ?thesis
    unfolding lc tiles_def using pixels_halves[of dw dh dx dy] by blast
qed

lemma pixels_differ: "pixels (0, 0, 200, 200) \<noteq> pixels (0, 0, 400, 200)"
proof
  assume "pixels (0, 0, 200, 200) = pixels (0, 0, 400, 200)"
  moreover have "(300, 0) \<in> pixels (0, 0, 400, 200)" by (simp add: pixels_def)
  moreover have "(300, 0) \<notin> pixels (0, 0, 200, 200)" by (simp add: pixels_def)
  ultimately show False by simp
qed

theorem C6_leaves_tile_on_success_witness:
  "leaf_chunks example_state
      (snd (ChunkAndWarpImage example_api (example_sys CE_None) ident_options 0 0 400 200 example_state))
     = [(0, 0, 200, 200), (200, 0, 200, 200)] \<and>
   tiles [(0, 0, 200, 200), (200, 0, 200, 200)] (0, 0, 400, 200) \<and>
   pixels (0, 0, 200, 200) \<inter> pixels (200, 0, 200, 200) = {} \<and>
   pixels (0, 0, 200, 200) \<union> pixels (200, 0, 200, 200) = pixels (0, 0, 400, 200)"
proof -
  let ?run = "ChunkAndWarpImage example_api (example_sys CE_None) ident_options 0 0 400 200 example_state"
  have ok: "fst ?run = CE_None" by (simp add: ident_run_ok)
  have lc: "leaf_chunks example_state (snd ?run) = [(0, 0, 200, 200), (200, 0, 200, 200)]"
    by (simp add: ident_run_ok leaf_chunks_def example_state_regions)
  have gt: "(400::int) > 2 \<or> (200::int) > 2" by simp
  note c = C6_leaves_tile_on_success[of example_api "example_sys CE_None" ident_options 0 0 400 200 example_state]
  from c ok have t: "tiles (leaf_chunks example_state (snd ?run)) (0, 0, 400, 200)" by blast
  from c gt have g: "pixels (lower_half (0, 0, 400, 200)) \<inter> pixels (upper_half (0, 0, 400, 200)) = {} \<and>
      pixels (lower_half (0, 0, 400, 200)) \<union> pixels (upper_half (0, 0, 400, 200)) = pixels (0, 0, 400, 200)"
    by blast
  from lc t g show ?thesis by (simp only: ident_halves)
qed

text \<open>
  The claim C6 as stated, for every rectangle, fails when the kernel fails on the
  first leaf: the recursion stops, and the one leaf visited is the left half only.
\<close>

theorem C6_kernel_failure_counterexample:
  "\<not> tiles (leaf_chunks example_state
              (snd (ChunkAndWarpImage example_api (example_sys CE_Failure) ident_options 0 0 400 200 example_state)))
        (0, 0, 400, 200)"
proof -
  have lc: "leaf_chunks example_state
              (snd (ChunkAndWarpImage example_api (example_sys CE_Failure) ident_options 0 0 400 200 example_state))
            = [(0, 0, 200, 200)]"
    by (simp add: ident_run_fail leaf_chunks_def example_state_regions)
  show ?thesis
    unfolding lc tiles_def using pixels_differ by simp
qed







end
